theory Spec2Isabelle
  imports Complex_Main
begin

section \<open>Conventions of the embedding\<close>

text \<open>
  The member functions of the C++ classes \<open>RenkoChart\<close>, \<open>PatternDetector\<close> and
  \<open>RiskManager\<close> and the structs of \<open>Types.h\<close> are embedded one by one, under their own
  names.

  \<^item> \<open>Price\<close>, \<open>Volume\<close> and every other \<open>double\<close> are modelled by \<open>real\<close>: arithmetic is
    exact, there is no rounding, no infinity and no NaN. \<open>std::max\<close>, \<open>std::min\<close> and
    \<open>std::abs\<close> are \<open>max\<close>, \<open>min\<close> and \<open>abs\<close>. A quotient whose divisor is zero is
    \<open>0\<close> in HOL and an infinity or NaN in C++, so statements about such a quotient assume the
    divisor to be non-zero. Where the rounding of \<open>double\<close> arithmetic decides a statement,
    the brick engine is embedded a second time with the rounding written out (the functions
    with the suffix \<open>_fl\<close>, in the section on double arithmetic).
  \<^item> \<open>TimePoint\<close> is a natural number of clock ticks; a default-constructed time point is
    the epoch \<open>0\<close>. Where the source reads \<open>std::chrono::system_clock::now()\<close> the model takes
    the time read as an argument \<open>now\<close>.
  \<^item> A member \<open>x_\<close> of a class is the field \<open>x\<close> of the record of that class.
  \<^item> Writes to \<open>std::cout\<close> are not modelled, but for the line by which \<open>finalizeBrick\<close>
    announces a brick.
  \<^item> A call returns \<open>'a option\<close> where the source can run into undefined behaviour of C++:
    \<open>None\<close> stands for a call with no defined result. The two causes that occur are
    constructing a \<open>std::lock_guard\<close> on a \<open>std::mutex\<close> that the calling thread already
    owns (the mutex is not recursive; in practice the thread blocks forever) and incrementing
    an \<open>int\<close> that holds \<open>INT_MAX\<close>. A mutex is a \<open>bool\<close> field, \<open>True\<close> while it is held.
\<close>

type_synonym Price = real
type_synonym Volume = real
type_synonym TimePoint = nat
type_synonym Symbol = string

datatype OrderSide = BUY | SELL

datatype RiskStatus = NORMAL | WARNING | LIMIT_REACHED | PAPER_MODE

datatype PatternType = SETUP_1_CONSECUTIVE | SETUP_2_GREEN_RED_GREEN | NONE

definition lock_guard :: "bool \<Rightarrow> 'a option \<Rightarrow> 'a option" where
  \<comment> \<open>\<open>std::lock_guard<std::mutex> lock(m)\<close> followed by the rest of the function body:
      undefined when \<open>m\<close> is already held by the caller, the body otherwise.\<close>
  "lock_guard held body = (if held then None else body)"

definition INT_MAX :: int where
  "INT_MAX = 2147483647"

definition int_incr :: "int \<Rightarrow> int option" where
  \<comment> \<open>\<open>x++\<close> on an \<open>int\<close>: signed overflow is undefined.\<close>
  "int_incr x = (if x < INT_MAX then Some (x + 1) else None)"

section \<open>Types.h: the Renko brick\<close>

record RenkoBrick =
  open_price :: Price
  close_price :: Price
  high :: Price
  low :: Price
  timestamp :: TimePoint
  isUp :: bool
  completionPercent :: real

definition RenkoBrick_default :: RenkoBrick where
  \<comment> \<open>\<open>RenkoBrick()\<close>\<close>
  "RenkoBrick_default =
     \<lparr>open_price = 0, close_price = 0, high = 0, low = 0, timestamp = 0,
      isUp = True, completionPercent = 0\<rparr>"

definition RenkoBrick_make :: "Price \<Rightarrow> Price \<Rightarrow> TimePoint \<Rightarrow> bool \<Rightarrow> RenkoBrick" where
  \<comment> \<open>\<open>RenkoBrick(o, c, ts, up)\<close>\<close>
  "RenkoBrick_make o' c ts up =
     \<lparr>open_price = o', close_price = c, high = max o' c, low = min o' c, timestamp = ts,
      isUp = up, completionPercent = 1\<rparr>"

section \<open>RenkoChart\<close>

record RenkoChart =
  symbol :: Symbol
  brickSize :: real
  tickValue :: real
  maxBricks :: nat
  bricks :: "RenkoBrick list"
  currentBrick :: RenkoBrick
  currentBrickInitialized :: bool
  lastPrice :: Price
  highestPrice :: Price
  lowestPrice :: Price
  lastUpdate :: TimePoint
  dataMutex :: bool
  formed :: "RenkoBrick list"

text \<open>
  \<open>bricks\<close> is the \<open>std::deque\<close> of finalized bricks, oldest first: \<open>push_back\<close> appends,
  \<open>pop_front\<close> is \<open>tl\<close>, \<open>back()\<close> is \<open>last\<close>. \<open>formed\<close> is not a member of the class: it
  records, oldest first, the bricks that \<open>finalizeBrick\<close> has announced on \<open>std::cout\<close>
  (\<open>"New UP brick formed for ... at ..."\<close>), that is every brick ever finalized, also those
  that \<open>maintainMaxBricks\<close> has dropped from the series since. No function reads it.
\<close>

definition RenkoChart_new :: "Symbol \<Rightarrow> real \<Rightarrow> nat \<Rightarrow> RenkoChart" where
  \<comment> \<open>the constructor \<open>RenkoChart(symbol, brickSize, maxBricks)\<close>\<close>
  "RenkoChart_new name bs mb =
     \<lparr>symbol = name, brickSize = bs, tickValue = 1 / 10000, maxBricks = mb, bricks = [],
      currentBrick = RenkoBrick_default, currentBrickInitialized = False, lastPrice = 0,
      highestPrice = 0, lowestPrice = 0, lastUpdate = 0, dataMutex = False, formed = []\<rparr>"

function pop_front_while :: "nat \<Rightarrow> 'a list \<Rightarrow> 'a list" where
  \<comment> \<open>\<open>while (d.size() > m) d.pop_front();\<close>\<close>
  "pop_front_while m d = (if length d > m then pop_front_while m (tl d) else d)"
  by pat_completeness auto
termination
  by (relation "measure (\<lambda>(m, d). length d)") auto

declare pop_front_while.simps [simp del]

definition maintainMaxBricks :: "RenkoChart \<Rightarrow> RenkoChart" where
  "maintainMaxBricks c = c\<lparr>bricks := pop_front_while (maxBricks c) (bricks c)\<rparr>"

definition finalizeBrick :: "RenkoChart \<Rightarrow> RenkoBrick \<Rightarrow> RenkoChart" where
  "finalizeBrick c brick =
     (let c1 = c\<lparr>bricks := bricks c @ [brick]\<rparr>;
          c2 = c1\<lparr>currentBrick := RenkoBrick_default\<rparr>;
          c3 = c2\<lparr>currentBrick := (currentBrick c2)
                    \<lparr>open_price := close_price brick, close_price := close_price brick,
                     timestamp := timestamp brick, completionPercent := 0\<rparr>\<rparr>;
          c4 = c3\<lparr>highestPrice := close_price brick, lowestPrice := close_price brick\<rparr>;
          c5 = maintainMaxBricks c4
      in c5\<lparr>formed := formed c5 @ [brick]\<rparr>)"

definition initializeCurrentBrick :: "RenkoChart \<Rightarrow> Price \<Rightarrow> TimePoint \<Rightarrow> RenkoChart" where
  "initializeCurrentBrick c price ts =
     c\<lparr>currentBrick := (currentBrick c)
          \<lparr>open_price := price, close_price := price, high := price, low := price,
           timestamp := ts, isUp := True, completionPercent := 0\<rparr>,
       highestPrice := price, lowestPrice := price, currentBrickInitialized := True\<rparr>"

definition updateCurrentBrick :: "RenkoChart \<Rightarrow> Price \<Rightarrow> TimePoint \<Rightarrow> RenkoChart" where
  "updateCurrentBrick c price ts =
     (if bricks c = [] then
        (if price \<ge> open_price (currentBrick c) + brickSize c then
           finalizeBrick c (RenkoBrick_make (open_price (currentBrick c))
                              (open_price (currentBrick c) + brickSize c) ts True)
         else if price \<le> open_price (currentBrick c) - brickSize c then
           finalizeBrick c (RenkoBrick_make (open_price (currentBrick c))
                              (open_price (currentBrick c) - brickSize c) ts False)
         else
           (let upDistance = price - open_price (currentBrick c);
                downDistance = open_price (currentBrick c) - price
            in if upDistance > downDistance then
                 c\<lparr>currentBrick := (currentBrick c)
                      \<lparr>isUp := True, completionPercent := upDistance / brickSize c\<rparr>\<rparr>
               else
                 c\<lparr>currentBrick := (currentBrick c)
                      \<lparr>isUp := False, completionPercent := downDistance / brickSize c\<rparr>\<rparr>))
      else
        (let lastClose = close_price (last (bricks c))
         in if price \<ge> lastClose + brickSize c then
              finalizeBrick c (RenkoBrick_make lastClose (lastClose + brickSize c) ts True)
            else if price \<le> lastClose - brickSize c then
              finalizeBrick c (RenkoBrick_make lastClose (lastClose - brickSize c) ts False)
            else
              (let upDistance = price - lastClose;
                   downDistance = lastClose - price;
                   c1 = (if \<bar>upDistance\<bar> > \<bar>downDistance\<bar> then
                           c\<lparr>currentBrick := (currentBrick c)
                                \<lparr>isUp := True, completionPercent := upDistance / brickSize c\<rparr>\<rparr>
                         else
                           c\<lparr>currentBrick := (currentBrick c)
                                \<lparr>isUp := False,
                                 completionPercent := \<bar>downDistance\<bar> / brickSize c\<rparr>\<rparr>)
               in c1\<lparr>currentBrick := (currentBrick c1)
                       \<lparr>completionPercent :=
                          max 0 (min 1 (completionPercent (currentBrick c1)))\<rparr>\<rparr>)))"

definition addPrice_body :: "RenkoChart \<Rightarrow> Price \<Rightarrow> TimePoint \<Rightarrow> RenkoChart" where
  \<comment> \<open>the body of \<open>addPrice\<close> below its lock guard\<close>
  "addPrice_body c price ts =
     (if price \<le> 0 then c
      else
        (let c1 = c\<lparr>lastPrice := price, lastUpdate := ts\<rparr>
         in if \<not> currentBrickInitialized c1 then initializeCurrentBrick c1 price ts
            else
              (let c2 = c1\<lparr>highestPrice := max (highestPrice c1) price,
                          lowestPrice := min (lowestPrice c1) price\<rparr>
               in updateCurrentBrick c2 price ts)))"

definition addPrice :: "RenkoChart \<Rightarrow> Price \<Rightarrow> TimePoint \<Rightarrow> RenkoChart option" where
  "addPrice c price ts =
     lock_guard (dataMutex c)
       (Some ((addPrice_body (c\<lparr>dataMutex := True\<rparr>) price ts)\<lparr>dataMutex := False\<rparr>))"

fun feed :: "RenkoChart \<Rightarrow> (Price \<times> TimePoint) list \<Rightarrow> RenkoChart option" where
  \<comment> \<open>a caller applying \<open>addPrice\<close> to a sequence of ticks, in order\<close>
  "feed c [] = Some c"
| "feed c ((price, ts) # rest) =
     (case addPrice c price ts of None \<Rightarrow> None | Some c' \<Rightarrow> feed c' rest)"

text \<open>
  The read-only members of \<open>RenkoChart\<close>. Those that take \<open>dataMutex\<close> are undefined when
  it is already held; a member called from inside a guarded body sees the mutex held.
\<close>

definition getBricks :: "RenkoChart \<Rightarrow> nat \<Rightarrow> RenkoBrick list option" where
  "getBricks c count =
     lock_guard (dataMutex c)
       (if count = 0 \<or> count \<ge> length (bricks c) then Some (bricks c)
        else Some (drop (length (bricks c) - count) (bricks c)))"

definition getLastNBricks :: "RenkoChart \<Rightarrow> nat \<Rightarrow> RenkoBrick list option" where
  "getLastNBricks c n = getBricks c n"

definition getCurrentBrick :: "RenkoChart \<Rightarrow> RenkoBrick option" where
  "getCurrentBrick c = lock_guard (dataMutex c) (Some (currentBrick c))"

definition getSymbol :: "RenkoChart \<Rightarrow> Symbol" where
  "getSymbol c = symbol c"

definition getNextUpBrickLevel :: "RenkoChart \<Rightarrow> Price option" where
  "getNextUpBrickLevel c =
     lock_guard (dataMutex c)
       (if bricks c = [] then Some (lastPrice c + brickSize c)
        else Some (close_price (last (bricks c)) + brickSize c))"

definition getNextDownBrickLevel :: "RenkoChart \<Rightarrow> Price option" where
  "getNextDownBrickLevel c =
     lock_guard (dataMutex c)
       (if bricks c = [] then Some (lastPrice c - brickSize c)
        else Some (close_price (last (bricks c)) - brickSize c))"

definition calculateSetup1EntryPrice :: "RenkoChart \<Rightarrow> OrderSide \<Rightarrow> int \<Rightarrow> Price option" where
  \<comment> \<open>takes \<open>dataMutex\<close> and then calls \<open>getNextUpBrickLevel\<close> or \<open>getNextDownBrickLevel\<close>
      on the same chart, which take it again\<close>
  "calculateSetup1EntryPrice c side tickBuffer =
     lock_guard (dataMutex c)
       (let held = c\<lparr>dataMutex := True\<rparr>
        in case (if side = BUY then getNextUpBrickLevel held else getNextDownBrickLevel held) of
             None \<Rightarrow> None
           | Some basePrice \<Rightarrow>
               (let tickAdjustment = of_int tickBuffer * tickValue held
                in Some (if side = BUY then basePrice + tickAdjustment
                         else basePrice - tickAdjustment)))"

definition calculateStopLoss :: "RenkoChart \<Rightarrow> OrderSide \<Rightarrow> int \<Rightarrow> Price option" where
  "calculateStopLoss c side tickBuffer =
     lock_guard (dataMutex c)
       (if bricks c = [] then Some (lastPrice c)
        else
          (let stopLevel = (if side = BUY then close_price (last (bricks c)) - brickSize c
                            else close_price (last (bricks c)) + brickSize c);
               tickAdjustment = of_int tickBuffer * tickValue c
           in Some (if side = BUY then stopLevel - tickAdjustment
                    else stopLevel + tickAdjustment)))"


definition reference :: "RenkoChart \<Rightarrow> Price" where
  \<comment> \<open>the level from which \<open>updateCurrentBrick\<close> measures the price: the open of the partial
      brick while the series is empty, the close of the last finalized brick after that\<close>
  "reference c =
     (if bricks c = [] then open_price (currentBrick c) else close_price (last (bricks c)))"

definition finalizes :: "RenkoChart \<Rightarrow> Price \<Rightarrow> bool" where
  \<comment> \<open>the two conditions under which \<open>updateCurrentBrick\<close> calls \<open>finalizeBrick\<close>\<close>
  "finalizes c price =
     (price \<ge> reference c + brickSize c \<or> price \<le> reference c - brickSize c)"

section \<open>The brick engine in double arithmetic\<close>

text \<open>
  A sum, difference or quotient of two \<open>double\<close>s is the exact result rounded to a \<open>double\<close>.
  The functions below are \<open>updateCurrentBrick\<close> and its callers once more, with that rounding
  as a parameter \<open>fl\<close> applied to every such result; comparisons, \<open>std::abs\<close>, \<open>std::max\<close> and
  \<open>std::min\<close> are exact. With the identity for \<open>fl\<close> they are the functions above
  (\<open>feed_fl_exact\<close>).

  \<open>round_double\<close> is the rounding of IEEE 754 binary64 in the default mode, to the nearest
  \<open>double\<close> with ties to the even significand: a \<open>double\<close> of binary exponent \<open>e\<close> is a multiple
  of \<open>2 ^ (e - 52)\<close>, and the exponent is at least \<open>-1022\<close> (below that the subnormal numbers
  share the spacing \<open>2 ^ -1074\<close>). Results of magnitude \<open>2 ^ 1024\<close> and more, which are
  infinite in C++, are not modelled.
\<close>

definition scale2 :: "int \<Rightarrow> real \<Rightarrow> real" where
  \<comment> \<open>\<open>x * 2 ^ k\<close> for an integer \<open>k\<close> of either sign\<close>
  "scale2 k x = (if 0 \<le> k then x * 2 ^ nat k else x / 2 ^ nat (- k))"

function exp_up :: "int \<Rightarrow> real \<Rightarrow> int" where
  \<comment> \<open>the binary exponent of \<open>a \<ge> 2 ^ e\<close>, searched upwards from \<open>e\<close>, at most 1023\<close>
  "exp_up e a = (if e \<ge> 1023 \<or> a < scale2 (e + 1) 1 then e else exp_up (e + 1) a)"
  by pat_completeness auto
termination
  by (relation "measure (\<lambda>(e, a). nat (1023 - e))") auto

function exp_down :: "int \<Rightarrow> real \<Rightarrow> int" where
  \<comment> \<open>the binary exponent of \<open>a < 2 ^ (e + 1)\<close>, searched downwards from \<open>e\<close>, at least -1022\<close>
  "exp_down e a = (if e \<le> - 1022 \<or> scale2 e 1 \<le> a then e else exp_down (e - 1) a)"
  by pat_completeness auto
termination
  by (relation "measure (\<lambda>(e, a). nat (e + 1022))") auto

declare exp_up.simps [simp del] exp_down.simps [simp del]

definition binade :: "real \<Rightarrow> int" where
  \<comment> \<open>the binary exponent of the \<open>double\<close>s around a magnitude \<open>a\<close>\<close>
  "binade a = (if 1 \<le> a then exp_up 0 a else exp_down (- 1) a)"

definition round_to_even :: "real \<Rightarrow> int" where
  \<comment> \<open>the nearest integer, the even one of the two at a tie\<close>
  "round_to_even y =
     (let f = \<lfloor>y\<rfloor>; r = y - of_int f
      in if r < 1 / 2 then f else if r > 1 / 2 then f + 1 else if even f then f else f + 1)"

definition round_double :: "real \<Rightarrow> real" where
  "round_double x =
     (let k = binade \<bar>x\<bar> - 52 in scale2 k (of_int (round_to_even (scale2 (- k) x))))"

definition updateCurrentBrick_fl ::
  "(real \<Rightarrow> real) \<Rightarrow> RenkoChart \<Rightarrow> Price \<Rightarrow> TimePoint \<Rightarrow> RenkoChart" where
  "updateCurrentBrick_fl fl c price ts =
     (if bricks c = [] then
        (if price \<ge> fl (open_price (currentBrick c) + brickSize c) then
           finalizeBrick c (RenkoBrick_make (open_price (currentBrick c))
                              (fl (open_price (currentBrick c) + brickSize c)) ts True)
         else if price \<le> fl (open_price (currentBrick c) - brickSize c) then
           finalizeBrick c (RenkoBrick_make (open_price (currentBrick c))
                              (fl (open_price (currentBrick c) - brickSize c)) ts False)
         else
           (let upDistance = fl (price - open_price (currentBrick c));
                downDistance = fl (open_price (currentBrick c) - price)
            in if upDistance > downDistance then
                 c\<lparr>currentBrick := (currentBrick c)
                      \<lparr>isUp := True, completionPercent := fl (upDistance / brickSize c)\<rparr>\<rparr>
               else
                 c\<lparr>currentBrick := (currentBrick c)
                      \<lparr>isUp := False, completionPercent := fl (downDistance / brickSize c)\<rparr>\<rparr>))
      else
        (let lastClose = close_price (last (bricks c))
         in if price \<ge> fl (lastClose + brickSize c) then
              finalizeBrick c (RenkoBrick_make lastClose (fl (lastClose + brickSize c)) ts True)
            else if price \<le> fl (lastClose - brickSize c) then
              finalizeBrick c (RenkoBrick_make lastClose (fl (lastClose - brickSize c)) ts False)
            else
              (let upDistance = fl (price - lastClose);
                   downDistance = fl (lastClose - price);
                   c1 = (if \<bar>upDistance\<bar> > \<bar>downDistance\<bar> then
                           c\<lparr>currentBrick := (currentBrick c)
                                \<lparr>isUp := True,
                                 completionPercent := fl (upDistance / brickSize c)\<rparr>\<rparr>
                         else
                           c\<lparr>currentBrick := (currentBrick c)
                                \<lparr>isUp := False,
                                 completionPercent := fl (\<bar>downDistance\<bar> / brickSize c)\<rparr>\<rparr>)
               in c1\<lparr>currentBrick := (currentBrick c1)
                       \<lparr>completionPercent :=
                          max 0 (min 1 (completionPercent (currentBrick c1)))\<rparr>\<rparr>)))"

definition addPrice_body_fl ::
  "(real \<Rightarrow> real) \<Rightarrow> RenkoChart \<Rightarrow> Price \<Rightarrow> TimePoint \<Rightarrow> RenkoChart" where
  "addPrice_body_fl fl c price ts =
     (if price \<le> 0 then c
      else
        (let c1 = c\<lparr>lastPrice := price, lastUpdate := ts\<rparr>
         in if \<not> currentBrickInitialized c1 then initializeCurrentBrick c1 price ts
            else
              (let c2 = c1\<lparr>highestPrice := max (highestPrice c1) price,
                          lowestPrice := min (lowestPrice c1) price\<rparr>
               in updateCurrentBrick_fl fl c2 price ts)))"

definition addPrice_fl ::
  "(real \<Rightarrow> real) \<Rightarrow> RenkoChart \<Rightarrow> Price \<Rightarrow> TimePoint \<Rightarrow> RenkoChart option" where
  "addPrice_fl fl c price ts =
     lock_guard (dataMutex c)
       (Some ((addPrice_body_fl fl (c\<lparr>dataMutex := True\<rparr>) price ts)\<lparr>dataMutex := False\<rparr>))"

fun feed_fl ::
  "(real \<Rightarrow> real) \<Rightarrow> RenkoChart \<Rightarrow> (Price \<times> TimePoint) list \<Rightarrow> RenkoChart option" where
  "feed_fl fl c [] = Some c"
| "feed_fl fl c ((price, ts) # rest) =
     (case addPrice_fl fl c price ts of None \<Rightarrow> None | Some c' \<Rightarrow> feed_fl fl c' rest)"

section \<open>PatternDetector\<close>

text \<open>
  Isabelle record fields share one name space, so a field name that several structs use
  carries a prefix of its struct. \<open>PatternResult()\<close> leaves \<open>suggestedSide\<close> uninitialised:
  the field is an \<open>option\<close>, \<open>None\<close> for the indeterminate value.
\<close>

record PatternResult =
  pattern_type :: PatternType
  pattern_symbol :: Symbol
  pattern_bricks :: "RenkoBrick list"
  confidence :: real
  detectionTime :: TimePoint
  suggestedEntry :: Price
  suggestedStop :: Price
  suggestedSide :: "OrderSide option"

definition PatternResult_default :: PatternResult where
  \<comment> \<open>\<open>PatternResult()\<close>\<close>
  "PatternResult_default =
     \<lparr>pattern_type = NONE, pattern_symbol = [], pattern_bricks = [], confidence = 0,
      detectionTime = 0, suggestedEntry = 0, suggestedStop = 0, suggestedSide = None\<rparr>"

text \<open>
  Of the detector only the configuration is modelled; the maps of active patterns and of
  pattern statistics are not read by the detection functions.
\<close>

record PatternDetector =
  minConfidence :: real
  partialBrickThreshold :: real
  tickBuffer :: int
  setup1Enabled :: bool
  setup2Enabled :: bool

definition PatternDetector_new :: PatternDetector where
  \<comment> \<open>the constructor \<open>PatternDetector()\<close>\<close>
  "PatternDetector_new =
     \<lparr>minConfidence = 7 / 10, partialBrickThreshold = 3 / 4, tickBuffer = 2,
      setup1Enabled = True, setup2Enabled = True\<rparr>"

definition setPartialBrickThreshold :: "PatternDetector \<Rightarrow> real \<Rightarrow> PatternDetector" where
  "setPartialBrickThreshold d threshold =
     d\<lparr>partialBrickThreshold := max (1 / 2) (min 1 threshold)\<rparr>"

definition detectSetup1Pattern ::
  "PatternDetector \<Rightarrow> RenkoChart \<Rightarrow> TimePoint \<Rightarrow> PatternResult option" where
  "detectSetup1Pattern d chart now =
     (let result = PatternResult_default
            \<lparr>pattern_type := NONE, pattern_symbol := getSymbol chart, detectionTime := now\<rparr>
      in case getLastNBricks chart 5 of
           None \<Rightarrow> None
         | Some recentBricks \<Rightarrow>
             if length recentBricks < 3 then Some result
             else
               (let hasConsecutiveDown =
                      (\<not> isUp (recentBricks ! (length recentBricks - 3))
                       \<and> \<not> isUp (recentBricks ! (length recentBricks - 2)))
                in case getCurrentBrick chart of
                     None \<Rightarrow> None
                   | Some current \<Rightarrow>
                       (let hasPartialUp =
                              (isUp current
                               \<and> completionPercent current \<ge> partialBrickThreshold d)
                        in if hasConsecutiveDown \<and> hasPartialUp then
                             (case calculateSetup1EntryPrice chart BUY (tickBuffer d) of
                                None \<Rightarrow> None
                              | Some entry \<Rightarrow>
                                  (case calculateStopLoss chart BUY (tickBuffer d) of
                                     None \<Rightarrow> None
                                   | Some stop \<Rightarrow>
                                       Some (result
                                         \<lparr>pattern_type := SETUP_1_CONSECUTIVE,
                                          confidence := 8 / 10,
                                          suggestedSide := Some BUY,
                                          suggestedEntry := entry,
                                          suggestedStop := stop,
                                          pattern_bricks := recentBricks\<rparr>)))
                           else Some result)))"

definition detectSetup1_after ::
  "PatternDetector \<Rightarrow> RenkoChart \<Rightarrow> (Price \<times> TimePoint) list \<Rightarrow> TimePoint
     \<Rightarrow> PatternResult option" where
  \<comment> \<open>a caller that feeds ticks to a chart and then runs the Setup 1 detector on it\<close>
  "detectSetup1_after d c ticks now =
     (case feed c ticks of None \<Rightarrow> None | Some c' \<Rightarrow> detectSetup1Pattern d c' now)"

definition detectSetup1_after_fl ::
  "(real \<Rightarrow> real) \<Rightarrow> PatternDetector \<Rightarrow> RenkoChart \<Rightarrow> (Price \<times> TimePoint) list
     \<Rightarrow> TimePoint \<Rightarrow> PatternResult option" where
  \<comment> \<open>the same caller on the chart in rounded arithmetic; the detector itself only compares\<close>
  "detectSetup1_after_fl fl d c ticks now =
     (case feed_fl fl c ticks of None \<Rightarrow> None | Some c' \<Rightarrow> detectSetup1Pattern d c' now)"

section \<open>Types.h: the structs of the risk manager\<close>

datatype OrderType = MARKET | LIMIT | STOP | STOP_LIMIT | ICEBERG | PEGGED | HYBRID

datatype OrderStatus =
  PENDING | SUBMITTED | PARTIALLY_FILLED | FILLED | CANCELLED | REJECTED | EXPIRED

datatype AssetClass = FOREX | CRYPTO | FUTURES | OPTIONS

record Order =
  orderId :: string
  order_symbol :: Symbol
  order_type :: OrderType
  order_side :: OrderSide
  order_price :: Price
  order_quantity :: Volume
  filledQuantity :: Volume
  order_status :: OrderStatus
  createTime :: TimePoint
  order_updateTime :: TimePoint
  order_exchange :: string
  strategyId :: string
  order_stopLoss :: Price
  order_takeProfit :: Price
  triggerPrice :: Price
  visibleQuantity :: Volume
  tickOffset :: int

definition Order_default :: "OrderType \<Rightarrow> OrderSide \<Rightarrow> Order" where
  \<comment> \<open>\<open>Order()\<close>; the constructor leaves \<open>type\<close> and \<open>side\<close> uninitialised, the model takes
      them as arguments\<close>
  "Order_default ty sd =
     \<lparr>orderId = [], order_symbol = [], order_type = ty, order_side = sd, order_price = 0,
      order_quantity = 0, filledQuantity = 0, order_status = PENDING, createTime = 0,
      order_updateTime = 0, order_exchange = [], strategyId = [], order_stopLoss = 0,
      order_takeProfit = 0, triggerPrice = 0, visibleQuantity = 0, tickOffset = 0\<rparr>"

record Position =
  position_symbol :: Symbol
  position_side :: OrderSide
  position_quantity :: Volume
  averagePrice :: Price
  currentPrice :: Price
  position_unrealizedPnL :: Price
  position_realizedPnL :: Price
  openTime :: TimePoint
  position_updateTime :: TimePoint
  position_exchange :: string

record TradingSignal =
  signal_symbol :: Symbol
  signal_pattern :: PatternType
  signal_side :: OrderSide
  entryPrice :: Price
  stopLoss :: Price
  takeProfit :: Price
  signal_quantity :: Volume
  signal_timestamp :: TimePoint
  signal_confidence :: real
  description :: string

definition TradingSignal_default :: "OrderSide \<Rightarrow> TradingSignal" where
  \<comment> \<open>\<open>TradingSignal()\<close>; the constructor leaves \<open>side\<close> uninitialised, the model takes it
      as an argument\<close>
  "TradingSignal_default sd =
     \<lparr>signal_symbol = [], signal_pattern = NONE, signal_side = sd, entryPrice = 0,
      stopLoss = 0, takeProfit = 0, signal_quantity = 0, signal_timestamp = 0,
      signal_confidence = 0, description = []\<rparr>"

record RiskParameters =
  dailyRiskPercent :: real
  maxDrawdownPercent :: real
  consecutiveLossLimit :: int
  capitalUtilization :: real
  ordersPerCounter :: int
  minLotSize :: real
  paperTradingMode :: bool

definition RiskParameters_default :: RiskParameters where
  \<comment> \<open>\<open>RiskParameters()\<close>\<close>
  "RiskParameters_default =
     \<lparr>dailyRiskPercent = 1 / 100, maxDrawdownPercent = 5 / 100, consecutiveLossLimit = 2,
      capitalUtilization = 1, ordersPerCounter = 10, minLotSize = 1 / 100,
      paperTradingMode = False\<rparr>"

record AccountInfo =
  balance :: real
  equity :: real
  margin :: real
  freeMargin :: real
  marginLevel :: real
  unrealizedPnL :: Price
  realizedPnL :: Price
  currency :: string
  account_lastUpdate :: TimePoint

definition AccountInfo_default :: AccountInfo where
  \<comment> \<open>\<open>AccountInfo()\<close>\<close>
  "AccountInfo_default =
     \<lparr>balance = 0, equity = 0, margin = 0, freeMargin = 0, marginLevel = 0,
      unrealizedPnL = 0, realizedPnL = 0, currency = [], account_lastUpdate = 0\<rparr>"

record InstrumentSpec =
  instrument_symbol :: Symbol
  assetClass :: AssetClass
  tickSize :: real
  instrument_tickValue :: real
  contractSize :: real
  marginRequirement :: real
  precision :: int
  isActive :: bool
  baseAsset :: string
  quoteAsset :: string

definition InstrumentSpec_default :: "AssetClass \<Rightarrow> InstrumentSpec" where
  \<comment> \<open>\<open>InstrumentSpec()\<close>; the constructor leaves \<open>assetClass\<close> uninitialised, the model
      takes it as an argument\<close>
  "InstrumentSpec_default ac =
     \<lparr>instrument_symbol = [], assetClass = ac, tickSize = 1 / 10000,
      instrument_tickValue = 1, contractSize = 1, marginRequirement = 1 / 100,
      precision = 5, isActive = True, baseAsset = [], quoteAsset = []\<rparr>"

record TradingCounter =
  counterNumber :: int
  ordersCount :: int
  orders :: "Order list"
  initialCapital :: real
  currentCapital :: real
  totalPnL :: real
  totalCharges :: real
  startTime :: TimePoint
  endTime :: TimePoint
  isComplete :: bool

definition TradingCounter_default :: TradingCounter where
  \<comment> \<open>\<open>TradingCounter()\<close>\<close>
  "TradingCounter_default =
     \<lparr>counterNumber = 0, ordersCount = 0, orders = [], initialCapital = 0,
      currentCapital = 0, totalPnL = 0, totalCharges = 0, startTime = 0, endTime = 0,
      isComplete = False\<rparr>"

section \<open>RiskManager\<close>

text \<open>
  The members \<open>lastTradeTime_\<close>, \<open>dailyReturns_\<close> and \<open>riskAlertCallback_\<close> are not modelled;
  no function of \<open>RiskManager.cpp\<close> reads them.
\<close>

record RiskManager =
  params :: RiskParameters
  paramsMutex :: bool
  currentStatus :: RiskStatus
  paperMode :: bool
  emergencyStop :: bool
  equityHighWaterMark :: real
  currentDrawdown :: real
  maxDrawdown :: real
  highWaterMarkTime :: TimePoint
  dailyStartBalance :: real
  dailyPnL :: real
  dailyRiskUsed :: real
  lastDailyReset :: TimePoint
  currentCounter :: TradingCounter
  completedCounters :: "TradingCounter list"
  counterMutex :: bool
  consecutiveLosses :: int
  consecutiveWins :: int
  maxConsecutiveLosses :: int
  totalTrades :: real
  profitableTrades :: real

definition RiskManager_new :: RiskManager where
  \<comment> \<open>the constructor \<open>RiskManager()\<close>\<close>
  "RiskManager_new =
     \<lparr>params = RiskParameters_default, paramsMutex = False, currentStatus = NORMAL,
      paperMode = False, emergencyStop = False, equityHighWaterMark = 0,
      currentDrawdown = 0, maxDrawdown = 0, highWaterMarkTime = 0, dailyStartBalance = 0,
      dailyPnL = 0, dailyRiskUsed = 0, lastDailyReset = 0,
      currentCounter = TradingCounter_default, completedCounters = [], counterMutex = False,
      consecutiveLosses = 0, consecutiveWins = 0, maxConsecutiveLosses = 0, totalTrades = 0,
      profitableTrades = 0\<rparr>"

definition initialize :: "RiskManager \<Rightarrow> RiskParameters \<Rightarrow> (bool \<times> RiskManager) option" where
  "initialize s p =
     lock_guard (paramsMutex s)
       (Some (True, s\<lparr>params := p, paperMode := paperTradingMode p\<rparr>))"

definition updateRiskParameters :: "RiskManager \<Rightarrow> RiskParameters \<Rightarrow> RiskManager option" where
  "updateRiskParameters s p = lock_guard (paramsMutex s) (Some (s\<lparr>params := p\<rparr>))"

definition calculatePositionSize ::
  "RiskManager \<Rightarrow> Symbol \<Rightarrow> TradingSignal \<Rightarrow> AccountInfo \<Rightarrow> InstrumentSpec \<Rightarrow> real" where
  "calculatePositionSize s name signal account instrument =
     (let riskAmount = equity account * dailyRiskPercent (params s);
          stopDistance = \<bar>entryPrice signal - stopLoss signal\<bar>
      in if stopDistance \<le> 0 then 0
         else
           (let positionSize = riskAmount / (stopDistance * instrument_tickValue instrument);
                positionSize1 = max positionSize (minLotSize (params s));
                positionSize2 = min positionSize1 (equity account * (1 / 10))
            in positionSize2))"

definition isWithinDailyRiskLimit :: "RiskManager \<Rightarrow> Order \<Rightarrow> AccountInfo \<Rightarrow> bool" where
  "isWithinDailyRiskLimit s order account =
     (let maxDailyRisk = equity account * dailyRiskPercent (params s)
      in dailyRiskUsed s < maxDailyRisk)"

definition isWithinDrawdownLimit :: "RiskManager \<Rightarrow> AccountInfo \<Rightarrow> bool" where
  "isWithinDrawdownLimit s account = (currentDrawdown s < maxDrawdownPercent (params s))"

definition validateOrder ::
  "RiskManager \<Rightarrow> Order \<Rightarrow> AccountInfo \<Rightarrow> Position list \<Rightarrow> bool \<times> RiskManager" where
  \<comment> \<open>the result and the state of the manager after the call\<close>
  "validateOrder s order account positions =
     (if emergencyStop s then (False, s)
      else if \<not> isWithinDailyRiskLimit s order account then (False, s)
      else if \<not> isWithinDrawdownLimit s account then (False, s)
      else (True, s))"

definition getCurrentRiskStatus :: "RiskManager \<Rightarrow> RiskStatus" where
  "getCurrentRiskStatus s = currentStatus s"

definition calculateDrawdown :: "RiskManager \<Rightarrow> real \<Rightarrow> TimePoint \<Rightarrow> RiskManager" where
  "calculateDrawdown s currentEquity now =
     (let s1 = (if currentEquity > equityHighWaterMark s
                then s\<lparr>equityHighWaterMark := currentEquity, highWaterMarkTime := now\<rparr>
                else s)
      in if equityHighWaterMark s1 > 0 then
           (let s2 = s1\<lparr>currentDrawdown :=
                          (equityHighWaterMark s1 - currentEquity) / equityHighWaterMark s1\<rparr>
            in s2\<lparr>maxDrawdown := max (maxDrawdown s2) (currentDrawdown s2)\<rparr>)
         else s1)"

definition updateRiskStatus ::
  "RiskManager \<Rightarrow> AccountInfo \<Rightarrow> Position list \<Rightarrow> TimePoint \<Rightarrow> RiskManager" where
  "updateRiskStatus s account positions now =
     (let s1 = calculateDrawdown s (equity account) now
      in if emergencyStop s1 then s1\<lparr>currentStatus := LIMIT_REACHED\<rparr>
         else if paperMode s1 then s1\<lparr>currentStatus := PAPER_MODE\<rparr>
         else if currentDrawdown s1 > maxDrawdownPercent (params s1) * (8 / 10)
           then s1\<lparr>currentStatus := WARNING\<rparr>
         else s1\<lparr>currentStatus := NORMAL\<rparr>)"

definition shouldSwitchToPaperMode :: "RiskManager \<Rightarrow> bool" where
  "shouldSwitchToPaperMode s = (consecutiveLosses s \<ge> consecutiveLossLimit (params s))"

definition switchToPaperMode :: "RiskManager \<Rightarrow> RiskManager" where
  "switchToPaperMode s = s\<lparr>paperMode := True, currentStatus := PAPER_MODE\<rparr>"

definition switchToLiveMode :: "RiskManager \<Rightarrow> RiskManager" where
  "switchToLiveMode s = s\<lparr>paperMode := False\<rparr>"

definition isPaperMode :: "RiskManager \<Rightarrow> bool" where
  "isPaperMode s = paperMode s"

definition recordTrade :: "RiskManager \<Rightarrow> Order \<Rightarrow> bool \<Rightarrow> RiskManager option" where
  "recordTrade s order profitable =
     (let s1 = s\<lparr>totalTrades := totalTrades s + 1\<rparr>
      in if profitable then
           (case int_incr (consecutiveWins s1) of
              None \<Rightarrow> None
            | Some w \<Rightarrow>
                Some (s1\<lparr>consecutiveWins := w, consecutiveLosses := 0,
                          profitableTrades := profitableTrades s1 + 1\<rparr>))
         else
           (case int_incr (consecutiveLosses s1) of
              None \<Rightarrow> None
            | Some l \<Rightarrow>
                (let s2 = s1\<lparr>consecutiveLosses := l, consecutiveWins := 0\<rparr>;
                     s3 = s2\<lparr>maxConsecutiveLosses :=
                                max (maxConsecutiveLosses s2) (consecutiveLosses s2)\<rparr>
                 in if shouldSwitchToPaperMode s3 \<and> \<not> paperMode s3
                    then Some (switchToPaperMode s3)
                    else Some s3)))"

definition getConsecutiveLosses :: "RiskManager \<Rightarrow> int" where
  "getConsecutiveLosses s = consecutiveLosses s"

definition getConsecutiveWins :: "RiskManager \<Rightarrow> int" where
  "getConsecutiveWins s = consecutiveWins s"

definition resetConsecutiveCount :: "RiskManager \<Rightarrow> RiskManager" where
  "resetConsecutiveCount s = s\<lparr>consecutiveLosses := 0, consecutiveWins := 0\<rparr>"

definition performDailyReset :: "RiskManager \<Rightarrow> TimePoint \<Rightarrow> RiskManager" where
  "performDailyReset s now = s\<lparr>dailyPnL := 0, dailyRiskUsed := 0, lastDailyReset := now\<rparr>"

definition resetDailyCounters :: "RiskManager \<Rightarrow> TimePoint \<Rightarrow> RiskManager" where
  "resetDailyCounters s now = performDailyReset s now"

definition enableEmergencyStop :: "RiskManager \<Rightarrow> RiskManager" where
  "enableEmergencyStop s = s\<lparr>emergencyStop := True, currentStatus := LIMIT_REACHED\<rparr>"

definition disableEmergencyStop :: "RiskManager \<Rightarrow> RiskManager" where
  "disableEmergencyStop s = s\<lparr>emergencyStop := False\<rparr>"

definition isEmergencyStopActive :: "RiskManager \<Rightarrow> bool" where
  "isEmergencyStopActive s = emergencyStop s"

definition closeAllPositions :: "RiskManager \<Rightarrow> RiskManager" where
  "closeAllPositions s = s"

definition startNewCounter :: "RiskManager \<Rightarrow> TimePoint \<Rightarrow> RiskManager option" where
  "startNewCounter s now =
     lock_guard (counterMutex s)
       (if isComplete (currentCounter s) \<or> ordersCount (currentCounter s) = 0 then
          Some (s\<lparr>currentCounter := TradingCounter_default
                     \<lparr>counterNumber := int (length (completedCounters s)) + 1,
                      startTime := now\<rparr>\<rparr>)
        else Some s)"

definition completeCounter :: "RiskManager \<Rightarrow> TimePoint \<Rightarrow> RiskManager option" where
  "completeCounter s now =
     lock_guard (counterMutex s)
       (let s1 = s\<lparr>currentCounter := (currentCounter s)\<lparr>isComplete := True, endTime := now\<rparr>\<rparr>
        in Some (s1\<lparr>completedCounters := completedCounters s1 @ [currentCounter s1]\<rparr>))"

definition addOrderToCounter :: "RiskManager \<Rightarrow> Order \<Rightarrow> TimePoint \<Rightarrow> RiskManager option" where
  \<comment> \<open>takes \<open>counterMutex\<close> and, once the counter is full, calls \<open>completeCounter\<close>, which
      takes it again\<close>
  "addOrderToCounter s order now =
     lock_guard (counterMutex s)
       (let held = s\<lparr>counterMutex := True\<rparr>
        in case int_incr (ordersCount (currentCounter held)) of
             None \<Rightarrow> None
           | Some n \<Rightarrow>
               (let s1 = held\<lparr>currentCounter := (currentCounter held)
                               \<lparr>orders := orders (currentCounter held) @ [order],
                                ordersCount := n\<rparr>\<rparr>
                in if ordersCount (currentCounter s1) \<ge> ordersPerCounter (params s1) then
                     (case completeCounter s1 now of
                        None \<Rightarrow> None
                      | Some s2 \<Rightarrow> Some (s2\<lparr>counterMutex := False\<rparr>))
                   else Some (s1\<lparr>counterMutex := False\<rparr>)))"

definition isCounterComplete :: "RiskManager \<Rightarrow> bool option" where
  "isCounterComplete s = lock_guard (counterMutex s) (Some (isComplete (currentCounter s)))"

definition getOrdersInCurrentCounter :: "RiskManager \<Rightarrow> int option" where
  "getOrdersInCurrentCounter s =
     lock_guard (counterMutex s) (Some (ordersCount (currentCounter s)))"

section \<open>Sequences of calls on a risk manager\<close>

text \<open>
  \<open>RiskOp\<close> lists the public member functions of \<open>RiskManager\<close> that can change its state
  (\<open>setRiskAlertCallback\<close> apart, whose field is not modelled); \<open>run\<close> applies a sequence of
  such calls, in order, and is undefined as soon as one call is.
\<close>

datatype RiskOp =
    Initialize RiskParameters
  | UpdateRiskParameters RiskParameters
  | UpdateRiskStatus AccountInfo "Position list" TimePoint
  | SwitchToPaperMode
  | SwitchToLiveMode
  | RecordTrade Order bool
  | ResetConsecutiveCount
  | PerformDailyReset TimePoint
  | ResetDailyCounters TimePoint
  | EnableEmergencyStop
  | DisableEmergencyStop
  | CloseAllPositions
  | StartNewCounter TimePoint
  | AddOrderToCounter Order TimePoint
  | CompleteCounter TimePoint

fun call :: "RiskManager \<Rightarrow> RiskOp \<Rightarrow> RiskManager option" where
  "call s (Initialize p) = map_option snd (initialize s p)"
| "call s (UpdateRiskParameters p) = updateRiskParameters s p"
| "call s (UpdateRiskStatus account positions now) =
     Some (updateRiskStatus s account positions now)"
| "call s SwitchToPaperMode = Some (switchToPaperMode s)"
| "call s SwitchToLiveMode = Some (switchToLiveMode s)"
| "call s (RecordTrade order profitable) = recordTrade s order profitable"
| "call s ResetConsecutiveCount = Some (resetConsecutiveCount s)"
| "call s (PerformDailyReset now) = Some (performDailyReset s now)"
| "call s (ResetDailyCounters now) = Some (resetDailyCounters s now)"
| "call s EnableEmergencyStop = Some (enableEmergencyStop s)"
| "call s DisableEmergencyStop = Some (disableEmergencyStop s)"
| "call s CloseAllPositions = Some (closeAllPositions s)"
| "call s (StartNewCounter now) = startNewCounter s now"
| "call s (AddOrderToCounter order now) = addOrderToCounter s order now"
| "call s (CompleteCounter now) = completeCounter s now"

fun run :: "RiskManager \<Rightarrow> RiskOp list \<Rightarrow> RiskManager option" where
  "run s [] = Some s"
| "run s (op # ops) = (case call s op of None \<Rightarrow> None | Some s' \<Rightarrow> run s' ops)"

definition losses :: "Order list \<Rightarrow> RiskOp list" where
  \<comment> \<open>one \<open>recordTrade(order, false)\<close> for each order\<close>
  "losses os = map (\<lambda>order. RecordTrade order False) os"

definition add_orders :: "Order list \<Rightarrow> TimePoint \<Rightarrow> RiskOp list" where
  \<comment> \<open>one \<open>addOrderToCounter(order)\<close> for each order\<close>
  "add_orders os now = map (\<lambda>order. AddOrderToCounter order now) os"

section \<open>Properties of a brick series\<close>

definition contiguous :: "RenkoBrick list \<Rightarrow> bool" where
  \<comment> \<open>each brick opens where the brick before it closed\<close>
  "contiguous bs =
     (\<forall>i. Suc i < length bs \<longrightarrow> open_price (bs ! Suc i) = close_price (bs ! i))"

definition uniform_bricks :: "real \<Rightarrow> RenkoBrick list \<Rightarrow> bool" where
  \<comment> \<open>every brick spans exactly \<open>b\<close>\<close>
  "uniform_bricks b bs = (\<forall>br \<in> set bs. \<bar>close_price br - open_price br\<bar> = b)"

definition history_ok :: "RenkoChart \<Rightarrow> bool" where
  \<comment> \<open>the finalized bricks are uniform and contiguous, the series holds the last
      \<open>maxBricks\<close> of them, and the partial brick opens where the last of them closed\<close>
  "history_ok c =
     (uniform_bricks (brickSize c) (formed c) \<and> contiguous (formed c)
      \<and> bricks c = drop (length (formed c) - maxBricks c) (formed c)
      \<and> (formed c \<noteq> []
           \<longrightarrow> currentBrickInitialized c
               \<and> open_price (currentBrick c) = close_price (last (formed c))))"

definition rounded_brick :: "(real \<Rightarrow> real) \<Rightarrow> real \<Rightarrow> RenkoBrick \<Rightarrow> bool" where
  \<comment> \<open>an up brick closes at the rounded sum of its open and \<open>b\<close>, a down brick at the
      rounded difference\<close>
  "rounded_brick fl b br =
     (close_price br = (if isUp br then fl (open_price br + b) else fl (open_price br - b)))"

definition history_fl :: "(real \<Rightarrow> real) \<Rightarrow> RenkoChart \<Rightarrow> bool" where
  \<comment> \<open>\<open>history_ok\<close> under the rounding \<open>fl\<close>\<close>
  "history_fl fl c =
     ((\<forall>br \<in> set (formed c). rounded_brick fl (brickSize c) br) \<and> contiguous (formed c)
      \<and> bricks c = drop (length (formed c) - maxBricks c) (formed c)
      \<and> (formed c \<noteq> []
           \<longrightarrow> currentBrickInitialized c
               \<and> open_price (currentBrick c) = close_price (last (formed c))))"

definition brick_height :: "RenkoBrick \<Rightarrow> real" where
  "brick_height br = \<bar>close_price br - open_price br\<bar>"

section \<open>Concrete inputs\<close>

definition up_brick :: "Price \<Rightarrow> RenkoBrick" where
  \<comment> \<open>a finalized up brick of size 0.001 opening at \<open>p\<close>\<close>
  "up_brick p = RenkoBrick_make p (p + 1 / 1000) 0 True"

definition down_brick :: "Price \<Rightarrow> RenkoBrick" where
  \<comment> \<open>a finalized down brick of size 0.001 opening at \<open>p\<close>\<close>
  "down_brick p = RenkoBrick_make p (p - 1 / 1000) 0 False"

definition partial_up :: "Price \<Rightarrow> real \<Rightarrow> RenkoBrick" where
  \<comment> \<open>a partial brick at level \<open>p\<close> marked as forming up, with the given completion\<close>
  "partial_up p q =
     RenkoBrick_default\<lparr>open_price := p, close_price := p, isUp := True,
                        completionPercent := q\<rparr>"

definition eurusd :: RenkoChart where
  \<comment> \<open>\<open>RenkoChart("EURUSD", 0.001)\<close>, as the tests construct it\<close>
  "eurusd = RenkoChart_new ''EURUSD'' (1 / 1000) 1000"

definition chart_holding :: "RenkoBrick list \<Rightarrow> RenkoBrick \<Rightarrow> RenkoChart" where
  \<comment> \<open>the EURUSD chart with the given finalized bricks and partial brick\<close>
  "chart_holding bs cur =
     eurusd\<lparr>bricks := bs, currentBrick := cur, currentBrickInitialized := True\<rparr>"

definition scenario_ticks :: "(Price \<times> TimePoint) list" where
  \<comment> \<open>the prices 1.1000, 1.0990, 1.0980, 1.0987 of \<open>testSetup1PatternDetection\<close>, ten
      seconds apart\<close>
  "scenario_ticks =
     [(11000 / 10000, 0), (10990 / 10000, 10), (10980 / 10000, 20), (10987 / 10000, 30)]"

definition fifth_tick :: "Price \<times> TimePoint" where
  "fifth_tick = (10988 / 10000, 40)"

definition eurusd_double :: RenkoChart where
  \<comment> \<open>the same chart with the literal \<open>0.001\<close> as the \<open>double\<close> it denotes\<close>
  "eurusd_double = RenkoChart_new ''EURUSD'' (round_double (1 / 1000)) 1000"

fun as_doubles :: "(Price \<times> TimePoint) list \<Rightarrow> (Price \<times> TimePoint) list" where
  \<comment> \<open>decimal price literals as the \<open>double\<close>s they denote\<close>
  "as_doubles [] = []"
| "as_doubles ((price, ts) # rest) = (round_double price, ts) # as_doubles rest"

definition testOrder :: Order where
  \<comment> \<open>the order of the risk tests: \<open>Order testOrder; testOrder.symbol = "EURUSD";
      testOrder.quantity = 0.01;\<close>\<close>
  "testOrder = (Order_default MARKET BUY)\<lparr>order_symbol := ''EURUSD'', order_quantity := 1 / 100\<rparr>"

definition testSignal :: TradingSignal where
  \<comment> \<open>a buy signal entering at 1.1000 with its stop one brick below\<close>
  "testSignal = (TradingSignal_default BUY)\<lparr>entryPrice := 11000 / 10000, stopLoss := 10990 / 10000\<rparr>"

section \<open>Basic facts about the chart\<close>

lemma pop_front_while_drop: "pop_front_while m d = drop (length d - m) d"
proof (induction m d rule: pop_front_while.induct)
  case (1 m d)
  show ?case
  proof (cases "length d > m")
    case True
    then have "d \<noteq> []" by auto
    then obtain x xs where d: "d = x # xs" by (cases d) auto
    from True d have "length d - m = Suc (length xs - m)" by auto
    with 1 True d show ?thesis
      by (subst pop_front_while.simps) simp
  next
    case False
    then show ?thesis
      by (subst pop_front_while.simps) simp
  qed
qed

lemma bricks_finalizeBrick:
  "bricks (finalizeBrick c brick) =
     drop (Suc (length (bricks c)) - maxBricks c) (bricks c @ [brick])"
  by (simp add: finalizeBrick_def maintainMaxBricks_def pop_front_while_drop Let_def)

lemma length_bricks_finalizeBrick:
  "length (bricks (finalizeBrick c brick)) \<le> Suc (length (bricks c))"
  by (simp add: bricks_finalizeBrick)

lemma length_bricks_updateCurrentBrick:
  "length (bricks (updateCurrentBrick c price ts)) \<le> Suc (length (bricks c))"
  by (auto simp add: updateCurrentBrick_def Let_def
        intro!: order_trans [OF length_bricks_finalizeBrick])

lemma length_bricks_addPrice_body:
  "length (bricks (addPrice_body c price ts)) \<le> Suc (length (bricks c))"
proof -
  have "length (bricks (updateCurrentBrick c' price ts)) \<le> Suc (length (bricks c))"
    if "bricks c' = bricks c" for c'
    using length_bricks_updateCurrentBrick [of c' price ts] that by simp
  then show ?thesis
    by (simp add: addPrice_body_def Let_def initializeCurrentBrick_def)
qed

lemma partial_branch_brickSize_positive: "\<not> finalizes c price \<Longrightarrow> 0 < brickSize c"
  \<comment> \<open>where \<open>updateCurrentBrick\<close> divides by the brick size, the brick size is positive\<close>
  by (simp add: finalizes_def)

lemma addPrice_returns: "\<not> dataMutex c \<Longrightarrow> \<exists>c'. addPrice c price ts = Some c' \<and> \<not> dataMutex c'"
  by (simp add: addPrice_def lock_guard_def)

section \<open>Evaluation on concrete inputs\<close>

text \<open>
  The equations with which the simplifier runs the model on a concrete input. The loop of
  \<open>maintainMaxBricks\<close> is run through \<open>pop_front_while_drop\<close>.
\<close>

lemmas chart_eval = addPrice_def lock_guard_def addPrice_body_def RenkoChart_new_def
  initializeCurrentBrick_def updateCurrentBrick_def finalizeBrick_def maintainMaxBricks_def
  pop_front_while_drop RenkoBrick_make_def RenkoBrick_default_def Let_def

lemmas chart_fl_eval = addPrice_fl_def addPrice_body_fl_def updateCurrentBrick_fl_def

lemmas double_eval = round_double_def round_to_even_def binade_def exp_up.simps exp_down.simps
  scale2_def

lemmas detector_eval = detectSetup1_after_def detectSetup1Pattern_def getLastNBricks_def
  getBricks_def getCurrentBrick_def getSymbol_def calculateSetup1EntryPrice_def
  calculateStopLoss_def getNextUpBrickLevel_def getNextDownBrickLevel_def
  PatternDetector_new_def PatternResult_default_def

lemmas input_eval = eurusd_def chart_holding_def up_brick_def down_brick_def partial_up_def
  scenario_ticks_def fifth_tick_def

lemmas risk_eval = initialize_def updateRiskParameters_def updateRiskStatus_def
  calculateDrawdown_def switchToPaperMode_def switchToLiveMode_def recordTrade_def
  shouldSwitchToPaperMode_def resetConsecutiveCount_def performDailyReset_def
  resetDailyCounters_def enableEmergencyStop_def disableEmergencyStop_def
  closeAllPositions_def startNewCounter_def completeCounter_def addOrderToCounter_def
  lock_guard_def int_incr_def INT_MAX_def Let_def

section \<open>The brick engine\<close>

subsection \<open>One call finalizes at most one brick\<close>

text \<open>
  Claim C1: on a seeded chart, one \<open>addPrice\<close> call with a positive price that lies \<open>k\<close>
  brick widths (\<open>k \<ge> 1\<close>) from the reference close finalizes exactly \<open>k\<close> bricks, all in the
  same direction.

  \<open>updateCurrentBrick\<close> has no loop: it calls \<open>finalizeBrick\<close> at most once
  (\<open>length_bricks_addPrice_body\<close>). The theorem runs the input of \<open>testPriceUpdates\<close>: brick
  size 0.001, seed 1.1000, then 1.1025, which is two and a half widths above the seed. The
  test expects two up bricks; the series holds one.
\<close>

theorem C1_one_brick_for_two_widths:
  "map_option (map isUp \<circ> bricks) (feed eurusd [(11000 / 10000, 0), (11025 / 10000, 1)])
     = Some [True]"
  by (simp add: chart_eval input_eval)

subsection \<open>Uniform and contiguous bricks\<close>

lemma contiguous_append:
  "contiguous (bs @ [b]) \<longleftrightarrow>
     contiguous bs \<and> (bs \<noteq> [] \<longrightarrow> open_price b = close_price (last bs))"
proof
  assume c: "contiguous (bs @ [b])"
  have "contiguous bs"
    unfolding contiguous_def
  proof (intro allI impI)
    fix i assume i: "Suc i < length bs"
    then have "Suc i < length (bs @ [b])" by simp
    with c have "open_price ((bs @ [b]) ! Suc i) = close_price ((bs @ [b]) ! i)"
      unfolding contiguous_def by blast
    with i show "open_price (bs ! Suc i) = close_price (bs ! i)"
      by (simp add: nth_append)
  qed
  moreover have "open_price b = close_price (last bs)" if ne: "bs \<noteq> []"
  proof -
    from ne obtain n where n: "length bs = Suc n" by (cases bs) auto
    then have "Suc n < length (bs @ [b])" by simp
    with c have "open_price ((bs @ [b]) ! Suc n) = close_price ((bs @ [b]) ! n)"
      unfolding contiguous_def by blast
    with n ne show ?thesis by (simp add: nth_append last_conv_nth)
  qed
  ultimately show "contiguous bs \<and> (bs \<noteq> [] \<longrightarrow> open_price b = close_price (last bs))"
    by blast
next
  assume a: "contiguous bs \<and> (bs \<noteq> [] \<longrightarrow> open_price b = close_price (last bs))"
  show "contiguous (bs @ [b])"
    unfolding contiguous_def
  proof (intro allI impI)
    fix i assume i: "Suc i < length (bs @ [b])"
    show "open_price ((bs @ [b]) ! Suc i) = close_price ((bs @ [b]) ! i)"
    proof (cases "Suc i < length bs")
      case True
      with a show ?thesis by (simp add: nth_append contiguous_def)
    next
      case False
      with i have l: "length bs = Suc i" by simp
      then have "bs \<noteq> []" by auto
      with a l show ?thesis by (simp add: nth_append last_conv_nth)
    qed
  qed
qed

lemma contiguous_drop: "contiguous bs \<Longrightarrow> contiguous (drop k bs)"
  unfolding contiguous_def
proof (intro allI impI)
  fix i
  assume a: "\<forall>i. Suc i < length bs \<longrightarrow> open_price (bs ! Suc i) = close_price (bs ! i)"
    and i: "Suc i < length (drop k bs)"
  from i have "Suc (k + i) < length bs" by simp
  with a have "open_price (bs ! Suc (k + i)) = close_price (bs ! (k + i))" by blast
  with i show "open_price (drop k bs ! Suc i) = close_price (drop k bs ! i)" by simp
qed

lemma finalizeBrick_fields:
  "formed (finalizeBrick c brick) = formed c @ [brick]"
  "open_price (currentBrick (finalizeBrick c brick)) = close_price brick"
  "currentBrickInitialized (finalizeBrick c brick) = currentBrickInitialized c"
  "brickSize (finalizeBrick c brick) = brickSize c"
  "maxBricks (finalizeBrick c brick) = maxBricks c"
  by (simp_all add: finalizeBrick_def maintainMaxBricks_def Let_def)

lemma updateCurrentBrick_up:
  assumes "price \<ge> reference c + brickSize c"
  shows "updateCurrentBrick c price ts =
           finalizeBrick c (RenkoBrick_make (reference c) (reference c + brickSize c) ts True)"
proof (cases "bricks c = []")
  case True
  with assms show ?thesis by (simp add: updateCurrentBrick_def reference_def)
next
  case False
  with assms show ?thesis by (simp add: updateCurrentBrick_def reference_def Let_def)
qed

lemma updateCurrentBrick_down:
  assumes "\<not> price \<ge> reference c + brickSize c" and "price \<le> reference c - brickSize c"
  shows "updateCurrentBrick c price ts =
           finalizeBrick c (RenkoBrick_make (reference c) (reference c - brickSize c) ts False)"
proof (cases "bricks c = []")
  case True
  with assms show ?thesis by (simp add: updateCurrentBrick_def reference_def)
next
  case False
  with assms show ?thesis by (simp add: updateCurrentBrick_def reference_def Let_def)
qed

lemma updateCurrentBrick_partial:
  assumes "\<not> finalizes c price"
  shows "formed (updateCurrentBrick c price ts) = formed c"
    and "bricks (updateCurrentBrick c price ts) = bricks c"
    and "open_price (currentBrick (updateCurrentBrick c price ts)) = open_price (currentBrick c)"
    and "currentBrickInitialized (updateCurrentBrick c price ts) = currentBrickInitialized c"
    and "maxBricks (updateCurrentBrick c price ts) = maxBricks c"
proof -
  from assms have n: "\<not> price \<ge> reference c + brickSize c" "\<not> price \<le> reference c - brickSize c"
    by (simp_all add: finalizes_def)
  show "formed (updateCurrentBrick c price ts) = formed c"
    and "bricks (updateCurrentBrick c price ts) = bricks c"
    and "open_price (currentBrick (updateCurrentBrick c price ts)) = open_price (currentBrick c)"
    and "currentBrickInitialized (updateCurrentBrick c price ts) = currentBrickInitialized c"
    and "maxBricks (updateCurrentBrick c price ts) = maxBricks c"
    using n by (cases "bricks c = []"; simp add: updateCurrentBrick_def reference_def Let_def)+
qed

lemma updateCurrentBrick_cases:
  "(\<exists>nb. updateCurrentBrick c price ts = finalizeBrick c nb
        \<and> \<bar>close_price nb - open_price nb\<bar> = \<bar>brickSize c\<bar>
        \<and> open_price nb = reference c)
   \<or> (formed (updateCurrentBrick c price ts) = formed c
      \<and> bricks (updateCurrentBrick c price ts) = bricks c
      \<and> open_price (currentBrick (updateCurrentBrick c price ts)) = open_price (currentBrick c)
      \<and> currentBrickInitialized (updateCurrentBrick c price ts) = currentBrickInitialized c
      \<and> maxBricks (updateCurrentBrick c price ts) = maxBricks c)"
proof -
  have mk: "\<bar>close_price (RenkoBrick_make p (p + d) ts up)
              - open_price (RenkoBrick_make p (p + d) ts up)\<bar> = \<bar>d\<bar>"
    "\<bar>close_price (RenkoBrick_make p (p - d) ts up)
              - open_price (RenkoBrick_make p (p - d) ts up)\<bar> = \<bar>d\<bar>"
    "open_price (RenkoBrick_make p (p + d) ts up) = p"
    "open_price (RenkoBrick_make p (p - d) ts up) = p" for p d up
    by (simp_all add: RenkoBrick_make_def)
  consider "price \<ge> reference c + brickSize c"
    | "\<not> price \<ge> reference c + brickSize c" "price \<le> reference c - brickSize c"
    | "\<not> finalizes c price"
    by (auto simp add: finalizes_def)
  then show ?thesis
  proof cases
    case 1
    from updateCurrentBrick_up [OF 1, of ts] mk(1,3) [of "reference c" "brickSize c" True]
    show ?thesis by blast
  next
    case 2
    from updateCurrentBrick_down [OF 2, of ts] mk(2,4) [of "reference c" "brickSize c" False]
    show ?thesis by blast
  next
    case 3
    from updateCurrentBrick_partial [OF 3, of ts] show ?thesis by blast
  qed
qed

lemma brickSize_updateCurrentBrick [simp]:
  "brickSize (updateCurrentBrick c price ts) = brickSize c"
  by (simp add: updateCurrentBrick_def finalizeBrick_def maintainMaxBricks_def Let_def)

lemma brickSize_addPrice_body [simp]: "brickSize (addPrice_body c price ts) = brickSize c"
  by (simp add: addPrice_body_def initializeCurrentBrick_def Let_def)

lemma drop_series_append:
  "drop (Suc (length (drop (n - m) xs)) - m) (drop (n - m) xs @ [x]) =
     drop (Suc n - m) (xs @ [x])"
  if "n = length xs"
proof (cases "n < m")
  case True
  with that show ?thesis by simp
next
  case False
  with that have l: "length (drop (n - m) xs) = m" by simp
  show ?thesis
  proof (cases "m = 0")
    case True
    with that show ?thesis by simp
  next
    case m: False
    with False that have "Suc n - m = Suc (n - m)" "n - m < length xs" by simp_all
    with l m that show ?thesis by (simp add: drop_Suc tl_append tl_drop split: list.splits)
  qed
qed

lemma history_ok_finalizeBrick:
  assumes "history_ok c" and "currentBrickInitialized c"
    and "\<bar>close_price nb - open_price nb\<bar> = brickSize c"
    and "open_price nb = reference c"
  shows "history_ok (finalizeBrick c nb)"
proof -
  from assms(1) have u: "uniform_bricks (brickSize c) (formed c)" and ct: "contiguous (formed c)"
    and b: "bricks c = drop (length (formed c) - maxBricks c) (formed c)"
    and o: "formed c \<noteq> [] \<longrightarrow> open_price (currentBrick c) = close_price (last (formed c))"
    by (simp_all add: history_ok_def)
  have "open_price nb = close_price (last (formed c))" if ne: "formed c \<noteq> []"
  proof (cases "bricks c = []")
    case True
    with assms(4) o ne show ?thesis by (simp add: reference_def)
  next
    case False
    with b have "last (bricks c) = last (formed c)" by (metis last_drop drop_eq_Nil not_le)
    with False assms(4) show ?thesis by (simp add: reference_def)
  qed
  with ct have "contiguous (formed c @ [nb])" by (simp add: contiguous_append)
  moreover from u assms(3) have "uniform_bricks (brickSize c) (formed c @ [nb])"
    by (simp add: uniform_bricks_def)
  moreover have "bricks (finalizeBrick c nb) =
      drop (Suc (length (formed c)) - maxBricks c) (formed c @ [nb])"
    unfolding bricks_finalizeBrick b by (rule drop_series_append) simp
  ultimately show ?thesis
    using assms(2) by (simp add: history_ok_def finalizeBrick_fields)
qed

lemma history_ok_updateCurrentBrick:
  assumes "history_ok c" and "currentBrickInitialized c" and "0 \<le> brickSize c"
  shows "history_ok (updateCurrentBrick c price ts)"
proof -
  from updateCurrentBrick_cases [of c price ts]
  consider nb where "updateCurrentBrick c price ts = finalizeBrick c nb"
      "\<bar>close_price nb - open_price nb\<bar> = \<bar>brickSize c\<bar>"
      "open_price nb = reference c"
    | "formed (updateCurrentBrick c price ts) = formed c"
      "bricks (updateCurrentBrick c price ts) = bricks c"
      "open_price (currentBrick (updateCurrentBrick c price ts)) = open_price (currentBrick c)"
      "currentBrickInitialized (updateCurrentBrick c price ts) = currentBrickInitialized c"
      "maxBricks (updateCurrentBrick c price ts) = maxBricks c"
    by blast
  then show ?thesis
  proof cases
    case 1
    from 1(2) assms(3) have "\<bar>close_price nb - open_price nb\<bar> = brickSize c" by simp
    with assms 1 show ?thesis by (simp add: history_ok_finalizeBrick)
  next
    case 2
    with assms(1) show ?thesis by (simp add: history_ok_def)
  qed
qed

lemma history_ok_addPrice_body:
  assumes "history_ok c" and "0 \<le> brickSize c"
  shows "history_ok (addPrice_body c price ts)"
proof (cases "price \<le> 0")
  case True
  with assms show ?thesis by (simp add: addPrice_body_def)
next
  case pos: False
  show ?thesis
  proof (cases "currentBrickInitialized c")
    case False
    with assms(1) have "formed c = []" by (auto simp add: history_ok_def)
    with assms(1) pos False show ?thesis
      by (simp add: addPrice_body_def initializeCurrentBrick_def history_ok_def Let_def)
  next
    case True
    let ?c2 = "c\<lparr>lastPrice := price, lastUpdate := ts,
                 highestPrice := max (highestPrice c) price,
                 lowestPrice := min (lowestPrice c) price\<rparr>"
    from assms True have "history_ok ?c2" "currentBrickInitialized ?c2" "0 \<le> brickSize ?c2"
      by (simp_all add: history_ok_def)
    then have "history_ok (updateCurrentBrick ?c2 price ts)"
      by (rule history_ok_updateCurrentBrick)
    with pos True show ?thesis by (simp add: addPrice_body_def Let_def)
  qed
qed

lemma feed_history_ok:
  assumes "\<not> dataMutex c" and "0 \<le> brickSize c" and "history_ok c"
  shows "\<exists>c'. feed c ticks = Some c' \<and> brickSize c' = brickSize c \<and> history_ok c'"
  using assms
proof (induction ticks arbitrary: c)
  case Nil
  then show ?case by simp
next
  case (Cons tick ticks)
  obtain price ts where tick: "tick = (price, ts)" by (cases tick)
  let ?b = "addPrice_body (c\<lparr>dataMutex := True\<rparr>) price ts"
  let ?c1 = "?b\<lparr>dataMutex := False\<rparr>"
  from Cons.prems have step: "addPrice c price ts = Some ?c1"
    by (simp add: addPrice_def lock_guard_def)
  from Cons.prems have "history_ok (c\<lparr>dataMutex := True\<rparr>)" "0 \<le> brickSize (c\<lparr>dataMutex := True\<rparr>)"
    by (simp_all add: history_ok_def)
  then have "history_ok ?b" by (rule history_ok_addPrice_body)
  then have ok: "history_ok ?c1" by (simp add: history_ok_def)
  have bs: "brickSize ?c1 = brickSize c" by simp
  from Cons.IH [of ?c1] Cons.prems(2) ok bs
  obtain c' where "feed ?c1 ticks = Some c'" "brickSize c' = brickSize c" "history_ok c'"
    by auto
  with step tick show ?case by simp
qed

lemma maxBricks_feed: "feed c ticks = Some c' \<Longrightarrow> maxBricks c' = maxBricks c"
proof (induction ticks arbitrary: c)
  case Nil
  then show ?case by simp
next
  case (Cons tick ticks)
  obtain price ts where tick: "tick = (price, ts)" by (cases tick)
  from Cons.prems tick obtain c1 where c1: "addPrice c price ts = Some c1" "feed c1 ticks = Some c'"
    by (auto split: option.splits)
  have "maxBricks (updateCurrentBrick d price ts) = maxBricks d" for d
    by (simp add: updateCurrentBrick_def finalizeBrick_fields Let_def)
  with c1(1) have "maxBricks c1 = maxBricks c"
    by (auto simp add: addPrice_def lock_guard_def addPrice_body_def initializeCurrentBrick_def
          Let_def split: if_splits)
  with Cons.IH [OF c1(2)] show ?case by simp
qed

text \<open>
  In exact arithmetic every finalized brick of a chart of brick size \<open>b > 0\<close> spans \<open>b\<close>.
\<close>

lemma bricks_uniform_in_exact_arithmetic:
  assumes "0 < b"
  shows "\<exists>c. feed (RenkoChart_new name b mb) ticks = Some c
           \<and> (\<forall>br \<in> set (formed c). \<bar>close_price br - open_price br\<bar> = b)
           \<and> (\<forall>i. Suc i < length (formed c)
                 \<longrightarrow> open_price (formed c ! Suc i) = close_price (formed c ! i))
           \<and> bricks c = drop (length (formed c) - mb) (formed c)"
proof -
  let ?c0 = "RenkoChart_new name b mb"
  have "\<not> dataMutex ?c0" "0 \<le> brickSize ?c0" "history_ok ?c0" and b: "brickSize ?c0 = b"
    and m: "maxBricks ?c0 = mb"
    using assms
    by (simp_all add: RenkoChart_new_def history_ok_def uniform_bricks_def contiguous_def)
  from feed_history_ok [OF this(1-3), of ticks]
  obtain c where c: "feed ?c0 ticks = Some c" "brickSize c = brickSize ?c0" "history_ok c"
    by blast
  from c(1) m have "maxBricks c = mb" by (simp add: maxBricks_feed)
  with c b show ?thesis
    by (auto simp add: history_ok_def uniform_bricks_def contiguous_def)
qed

subsection \<open>Bricks in double arithmetic\<close>

lemma updateCurrentBrick_fl_exact:
  "updateCurrentBrick_fl (\<lambda>x. x) c price ts = updateCurrentBrick c price ts"
  by (simp add: updateCurrentBrick_fl_def updateCurrentBrick_def)

lemma feed_fl_exact: "feed_fl (\<lambda>x. x) c ticks = feed c ticks"
proof (induction ticks arbitrary: c)
  case Nil
  then show ?case by simp
next
  case (Cons tick ticks)
  obtain price ts where tick: "tick = (price, ts)" by (cases tick)
  have "addPrice_fl (\<lambda>x. x) c price ts = addPrice c price ts"
    by (simp add: addPrice_fl_def addPrice_def addPrice_body_fl_def addPrice_body_def
          updateCurrentBrick_fl_exact Let_def)
  with Cons.IH tick show ?case by (simp cong: option.case_cong)
qed

lemma updateCurrentBrick_fl_cases:
  "(\<exists>nb. updateCurrentBrick_fl fl c price ts = finalizeBrick c nb
        \<and> rounded_brick fl (brickSize c) nb \<and> open_price nb = reference c)
   \<or> (formed (updateCurrentBrick_fl fl c price ts) = formed c
      \<and> bricks (updateCurrentBrick_fl fl c price ts) = bricks c
      \<and> open_price (currentBrick (updateCurrentBrick_fl fl c price ts))
          = open_price (currentBrick c)
      \<and> currentBrickInitialized (updateCurrentBrick_fl fl c price ts)
          = currentBrickInitialized c
      \<and> maxBricks (updateCurrentBrick_fl fl c price ts) = maxBricks c
      \<and> brickSize (updateCurrentBrick_fl fl c price ts) = brickSize c)"
proof -
  let ?r = "reference c"
  have up: "rounded_brick fl (brickSize c) (RenkoBrick_make ?r (fl (?r + brickSize c)) ts True)"
    "open_price (RenkoBrick_make ?r (fl (?r + brickSize c)) ts True) = ?r"
    and down: "rounded_brick fl (brickSize c) (RenkoBrick_make ?r (fl (?r - brickSize c)) ts False)"
    "open_price (RenkoBrick_make ?r (fl (?r - brickSize c)) ts False) = ?r"
    by (simp_all add: rounded_brick_def RenkoBrick_make_def)
  consider "price \<ge> fl (?r + brickSize c)"
    | "\<not> price \<ge> fl (?r + brickSize c)" "price \<le> fl (?r - brickSize c)"
    | "\<not> price \<ge> fl (?r + brickSize c)" "\<not> price \<le> fl (?r - brickSize c)"
    by blast
  then show ?thesis
  proof cases
    case 1
    then have "updateCurrentBrick_fl fl c price ts =
        finalizeBrick c (RenkoBrick_make ?r (fl (?r + brickSize c)) ts True)"
      by (cases "bricks c = []"; simp add: updateCurrentBrick_fl_def reference_def Let_def)
    with up show ?thesis by blast
  next
    case 2
    then have "updateCurrentBrick_fl fl c price ts =
        finalizeBrick c (RenkoBrick_make ?r (fl (?r - brickSize c)) ts False)"
      by (cases "bricks c = []"; simp add: updateCurrentBrick_fl_def reference_def Let_def)
    with down show ?thesis by blast
  next
    case 3
    then have "formed (updateCurrentBrick_fl fl c price ts) = formed c"
      "bricks (updateCurrentBrick_fl fl c price ts) = bricks c"
      "open_price (currentBrick (updateCurrentBrick_fl fl c price ts))
          = open_price (currentBrick c)"
      "currentBrickInitialized (updateCurrentBrick_fl fl c price ts)
          = currentBrickInitialized c"
      "maxBricks (updateCurrentBrick_fl fl c price ts) = maxBricks c"
      "brickSize (updateCurrentBrick_fl fl c price ts) = brickSize c"
      by (cases "bricks c = []"; simp add: updateCurrentBrick_fl_def reference_def Let_def)+
    then show ?thesis by blast
  qed
qed

lemma history_fl_finalizeBrick:
  assumes "history_fl fl c" and "currentBrickInitialized c"
    and "rounded_brick fl (brickSize c) nb" and "open_price nb = reference c"
  shows "history_fl fl (finalizeBrick c nb)"
proof -
  from assms(1) have u: "\<forall>br \<in> set (formed c). rounded_brick fl (brickSize c) br"
    and ct: "contiguous (formed c)"
    and b: "bricks c = drop (length (formed c) - maxBricks c) (formed c)"
    and o: "formed c \<noteq> [] \<longrightarrow> open_price (currentBrick c) = close_price (last (formed c))"
    by (simp_all add: history_fl_def)
  have "open_price nb = close_price (last (formed c))" if ne: "formed c \<noteq> []"
  proof (cases "bricks c = []")
    case True
    with assms(4) o ne show ?thesis by (simp add: reference_def)
  next
    case False
    with b have "last (bricks c) = last (formed c)" by (metis last_drop drop_eq_Nil not_le)
    with False assms(4) show ?thesis by (simp add: reference_def)
  qed
  with ct have "contiguous (formed c @ [nb])" by (simp add: contiguous_append)
  moreover from u assms(3) have "\<forall>br \<in> set (formed c @ [nb]). rounded_brick fl (brickSize c) br"
    by simp
  moreover have "bricks (finalizeBrick c nb) =
      drop (Suc (length (formed c)) - maxBricks c) (formed c @ [nb])"
    unfolding bricks_finalizeBrick b by (rule drop_series_append) simp
  ultimately show ?thesis
    using assms(2) by (simp add: history_fl_def finalizeBrick_fields)
qed

lemma history_fl_updateCurrentBrick:
  assumes "history_fl fl c" and "currentBrickInitialized c"
  shows "history_fl fl (updateCurrentBrick_fl fl c price ts)
         \<and> brickSize (updateCurrentBrick_fl fl c price ts) = brickSize c
         \<and> maxBricks (updateCurrentBrick_fl fl c price ts) = maxBricks c"
proof -
  from updateCurrentBrick_fl_cases [of fl c price ts]
  consider nb where "updateCurrentBrick_fl fl c price ts = finalizeBrick c nb"
      "rounded_brick fl (brickSize c) nb" "open_price nb = reference c"
    | "formed (updateCurrentBrick_fl fl c price ts) = formed c"
      "bricks (updateCurrentBrick_fl fl c price ts) = bricks c"
      "open_price (currentBrick (updateCurrentBrick_fl fl c price ts))
          = open_price (currentBrick c)"
      "currentBrickInitialized (updateCurrentBrick_fl fl c price ts)
          = currentBrickInitialized c"
      "maxBricks (updateCurrentBrick_fl fl c price ts) = maxBricks c"
      "brickSize (updateCurrentBrick_fl fl c price ts) = brickSize c"
    by blast
  then show ?thesis
  proof cases
    case 1
    from assms 1(2,3) have "history_fl fl (finalizeBrick c nb)"
      by (rule history_fl_finalizeBrick)
    with 1(1) show ?thesis by (simp add: finalizeBrick_fields)
  next
    case 2
    with assms(1) show ?thesis by (simp add: history_fl_def)
  qed
qed

lemma history_fl_addPrice_body:
  assumes "history_fl fl c"
  shows "history_fl fl (addPrice_body_fl fl c price ts)
         \<and> brickSize (addPrice_body_fl fl c price ts) = brickSize c
         \<and> maxBricks (addPrice_body_fl fl c price ts) = maxBricks c"
proof (cases "price \<le> 0")
  case True
  with assms show ?thesis by (simp add: addPrice_body_fl_def)
next
  case pos: False
  show ?thesis
  proof (cases "currentBrickInitialized c")
    case False
    with assms have "formed c = []" by (auto simp add: history_fl_def)
    with assms pos False show ?thesis
      by (simp add: addPrice_body_fl_def initializeCurrentBrick_def history_fl_def Let_def)
  next
    case True
    let ?c2 = "c\<lparr>lastPrice := price, lastUpdate := ts,
                 highestPrice := max (highestPrice c) price,
                 lowestPrice := min (lowestPrice c) price\<rparr>"
    from assms True have "history_fl fl ?c2" "currentBrickInitialized ?c2"
      by (simp_all add: history_fl_def)
    from history_fl_updateCurrentBrick [OF this, of price ts] pos True show ?thesis
      by (simp add: addPrice_body_fl_def Let_def)
  qed
qed

lemma feed_fl_history:
  assumes "\<not> dataMutex c" and "history_fl fl c"
  shows "\<exists>c'. feed_fl fl c ticks = Some c' \<and> brickSize c' = brickSize c
           \<and> maxBricks c' = maxBricks c \<and> history_fl fl c'"
  using assms
proof (induction ticks arbitrary: c)
  case Nil
  then show ?case by simp
next
  case (Cons tick ticks)
  obtain price ts where tick: "tick = (price, ts)" by (cases tick)
  let ?b = "addPrice_body_fl fl (c\<lparr>dataMutex := True\<rparr>) price ts"
  let ?c1 = "?b\<lparr>dataMutex := False\<rparr>"
  from Cons.prems have step: "addPrice_fl fl c price ts = Some ?c1"
    by (simp add: addPrice_fl_def lock_guard_def)
  from Cons.prems have "history_fl fl (c\<lparr>dataMutex := True\<rparr>)"
    by (simp add: history_fl_def)
  from history_fl_addPrice_body [OF this, of price ts]
  have h: "history_fl fl ?b" "brickSize ?b = brickSize c" "maxBricks ?b = maxBricks c"
    by simp_all
  from h(1) have ok: "history_fl fl ?c1" by (simp add: history_fl_def)
  from h(2,3) have bs: "brickSize ?c1 = brickSize c" and mb: "maxBricks ?c1 = maxBricks c"
    by simp_all
  from Cons.IH [of ?c1] ok
  obtain c' where "feed_fl fl ?c1 ticks = Some c'" "brickSize c' = brickSize ?c1"
    "maxBricks c' = maxBricks ?c1" "history_fl fl c'"
    by auto
  with step tick bs mb show ?case by simp
qed

text \<open>
  The two engines differ where a price lies on a threshold: on the prices 1.1000, 1.0990,
  1.0980, 1.0990 at brick size 0.001 the last price finalizes a third brick in exact arithmetic
  and none in \<open>double\<close> arithmetic, where the threshold is 1.0990000000000002.
\<close>

lemma exact_and_double_arithmetic_differ:
  "map_option (map isUp \<circ> formed)
     (feed eurusd [(11000 / 10000, 0), (10990 / 10000, 10), (10980 / 10000, 20),
                   (10990 / 10000, 30)])
     = Some [False, False, True]
   \<and> map_option (map isUp \<circ> formed)
       (feed_fl round_double eurusd_double
          (as_doubles [(11000 / 10000, 0), (10990 / 10000, 10), (10980 / 10000, 20),
                       (10990 / 10000, 30)]))
       = Some [False, False]"
  by (simp add: input_eval eurusd_double_def chart_eval chart_fl_eval double_eval
        cong: let_weak_cong)

text \<open>
  Claim C9: for every sequence of positive prices fed to a fresh chart of brick size \<open>b\<close>,
  every finalized brick has \<open>\<bar>close - open\<bar> = b\<close> exactly, and each finalized brick opens
  where the brick before it closed.

  The close of a brick is the \<open>double\<close> sum or difference of its open and \<open>b\<close>, so the brick
  spans \<open>b\<close> only where that sum is exact. On the input of \<open>testBrickCreation\<close>, brick size
  0.001 and the prices 1.1000 and 1.1015 as the compiler rounds them, the one finalized brick
  spans \<open>2251799813685 / 2 ^ 51\<close>, which is 0.00099999999999988987 and not the brick size; with
  the brick size 1 and twice the price \<open>10 ^ 17\<close>, where \<open>10 ^ 17 + 1\<close> rounds to \<open>10 ^ 17\<close>,
  the second call finalizes a brick that spans 0.
\<close>

theorem C9_counterexample:
  "map_option (map brick_height \<circ> formed)
     (feed_fl round_double (RenkoChart_new ''EURUSD'' (round_double (1 / 1000)) 1000)
        [(round_double (11000 / 10000), 0), (round_double (11015 / 10000), 1)])
     = Some [2251799813685 / 2251799813685248]
   \<and> round_double (1 / 1000) = 1152921504606847 / 1152921504606846976
   \<and> (2251799813685 / 2251799813685248 :: real) \<noteq> 1152921504606847 / 1152921504606846976
   \<and> map_option (map brick_height \<circ> formed)
       (feed_fl round_double (RenkoChart_new ''EURUSD'' (round_double 1) 1000)
          [(round_double 100000000000000000, 0), (round_double 100000000000000000, 1)])
       = Some [0]
   \<and> round_double 1 = 1"
  by (simp add: chart_eval chart_fl_eval double_eval brick_height_def cong: let_weak_cong)

text \<open>
  Claim C9, amended: for every sequence of prices fed to a fresh chart of brick size \<open>b\<close>,
  every finalized up brick closes at the rounded sum of its open and \<open>b\<close> and every finalized
  down brick at the rounded difference of its open and \<open>b\<close>, and each finalized brick opens
  where the brick before it closed.

  The statement is for every rounding \<open>fl\<close> of the arithmetic, of which the program has
  \<open>round_double\<close>, for any brick size and prices, and for all the bricks ever finalized,
  \<open>formed\<close>, of which the series \<open>bricks\<close> holds the last \<open>maxBricks\<close>. It states that the feed
  returns.
\<close>

theorem C9_bricks_rounded_and_contiguous:
  "\<exists>c. feed_fl fl (RenkoChart_new name b mb) ticks = Some c
       \<and> (\<forall>br \<in> set (formed c).
             close_price br = (if isUp br then fl (open_price br + b) else fl (open_price br - b)))
       \<and> (\<forall>i. Suc i < length (formed c)
             \<longrightarrow> open_price (formed c ! Suc i) = close_price (formed c ! i))
       \<and> bricks c = drop (length (formed c) - mb) (formed c)"
proof -
  let ?c0 = "RenkoChart_new name b mb"
  have "\<not> dataMutex ?c0" "history_fl fl ?c0" and b: "brickSize ?c0 = b"
    and m: "maxBricks ?c0 = mb"
    by (simp_all add: RenkoChart_new_def history_fl_def contiguous_def)
  from feed_fl_history [OF this(1,2), of ticks]
  obtain c where c: "feed_fl fl ?c0 ticks = Some c" "brickSize c = brickSize ?c0"
    "maxBricks c = maxBricks ?c0" "history_fl fl c"
    by blast
  with b m show ?thesis
    by (auto simp add: history_fl_def rounded_brick_def contiguous_def)
qed

text \<open>
  Claim C9, amended, in \<open>double\<close> arithmetic at brick size 0.001, a series of one brick and
  the prices 1.1000, 1.1015, 1.1000: an up brick and a down brick are finalized, and the series
  keeps the down brick.
\<close>

theorem C9_witness:
  "\<exists>c. feed_fl round_double (RenkoChart_new ''EURUSD'' (round_double (1 / 1000)) 1)
          [(round_double (11000 / 10000), 0), (round_double (11015 / 10000), 1),
           (round_double (11000 / 10000), 2)] = Some c
       \<and> map isUp (formed c) = [True, False] \<and> map isUp (bricks c) = [False]
       \<and> (\<forall>br \<in> set (formed c).
             close_price br = (if isUp br then round_double (open_price br + round_double (1 / 1000))
                               else round_double (open_price br - round_double (1 / 1000))))
       \<and> (\<forall>i. Suc i < length (formed c)
             \<longrightarrow> open_price (formed c ! Suc i) = close_price (formed c ! i))"
proof -
  let ?ticks = "[(round_double (11000 / 10000), 0), (round_double (11015 / 10000), 1),
                 (round_double (11000 / 10000), 2)] :: (Price \<times> TimePoint) list"
  let ?c0 = "RenkoChart_new ''EURUSD'' (round_double (1 / 1000)) 1"
  from C9_bricks_rounded_and_contiguous [of round_double "''EURUSD''" "round_double (1 / 1000)" 1
      ?ticks]
  obtain c where c: "feed_fl round_double ?c0 ?ticks = Some c"
    "\<forall>br \<in> set (formed c).
       close_price br = (if isUp br then round_double (open_price br + round_double (1 / 1000))
                         else round_double (open_price br - round_double (1 / 1000)))"
    "\<forall>i. Suc i < length (formed c)
       \<longrightarrow> open_price (formed c ! Suc i) = close_price (formed c ! i)"
    "bricks c = drop (length (formed c) - 1) (formed c)"
    by blast
  have "map_option (map isUp \<circ> formed) (feed_fl round_double ?c0 ?ticks) = Some [True, False]"
    by (simp add: chart_eval chart_fl_eval double_eval cong: let_weak_cong)
  with c(1) have m: "map isUp (formed c) = [True, False]" by simp
  then have "length (formed c) = 2" by (metis length_map length_Cons list.size(3) numeral_2_eq_2)
  with c(4) m have n: "map isUp (bricks c) = [False]"
    by (simp add: drop_map [symmetric])
  show ?thesis
    by (rule exI [of _ c]) (intro conjI c(1-3) m n)
qed

subsection \<open>The direction of the partial brick\<close>












section \<open>The pattern detector\<close>

lemma calculateSetup1EntryPrice_undefined: "calculateSetup1EntryPrice c side tb = None"
  by (simp add: calculateSetup1EntryPrice_def getNextUpBrickLevel_def
        getNextDownBrickLevel_def lock_guard_def Let_def)

lemma detectSetup1Pattern_never_matches:
  assumes "detectSetup1Pattern d c now = Some r"
  shows "pattern_type r = NONE"
  using assms
  by (auto simp add: detectSetup1Pattern_def calculateSetup1EntryPrice_undefined
        PatternResult_default_def Let_def split: option.splits if_splits)

text \<open>
  Claim C2: \<open>detectSetup1Pattern\<close> returns a Setup 1 match if and only if at least three
  finalized bricks exist, the two most recent finalized bricks are both down, and the partial
  brick is forming up with a completion of at least the threshold; every match has
  confidence 0.8 and side Buy.

  The code tests the bricks at \<open>size - 3\<close> and \<open>size - 2\<close>, not the two most recent ones, and
  its match branch calls \<open>calculateSetup1EntryPrice\<close>, which is undefined on every chart
  (\<open>calculateSetup1EntryPrice_undefined\<close>), so that no call returns a match
  (\<open>detectSetup1Pattern_never_matches\<close>). With threshold 0.75 and a partial brick marked up at
  0.8: on the bricks up, down, down the claim has a match and the code returns \<open>NONE\<close>; on
  down, down, up the claim has no match and the code enters its match branch and does not
  return; on down, down, down the claim has a match and the code does not return. The last
  conjunct feeds a fresh chart three down bricks and then a price 0.8 of a brick above the
  last close: the partial brick is marked down (see C10) and the code returns \<open>NONE\<close>.
\<close>

theorem C2_detectSetup1Pattern_diverges:
  "map_option pattern_type
     (detectSetup1Pattern PatternDetector_new
        (chart_holding [up_brick (1100 / 1000), down_brick (1101 / 1000), down_brick (1100 / 1000)]
           (partial_up (1099 / 1000) (8 / 10))) 0) = Some NONE
   \<and> detectSetup1Pattern PatternDetector_new
        (chart_holding [down_brick (1101 / 1000), down_brick (1100 / 1000), up_brick (1099 / 1000)]
           (partial_up (1100 / 1000) (8 / 10))) 0 = None
   \<and> detectSetup1Pattern PatternDetector_new
        (chart_holding [down_brick (1101 / 1000), down_brick (1100 / 1000), down_brick (1099 / 1000)]
           (partial_up (1098 / 1000) (8 / 10))) 0 = None
   \<and> map_option pattern_type
       (detectSetup1_after PatternDetector_new eurusd
          [(11000 / 10000, 0), (10990 / 10000, 10), (10980 / 10000, 20), (10970 / 10000, 30),
           (10978 / 10000, 40)] 50) = Some NONE"
  by (simp add: detector_eval input_eval chart_eval)

text \<open>
  Claim C3: with brick size 0.0010 the prices 1.1000, 1.0990, 1.0980, 1.0987 yield exactly
  two down bricks and a partial up brick of completion about 0.7, for which the detector with
  threshold 0.75 does not fire Setup 1; after a fifth price 1.0988 (completion 0.8) Setup 1
  fires with side Buy.

  In \<open>double\<close> arithmetic the code yields the two down bricks, a completion of
  \<open>197032483697375 / 2 ^ 48\<close>, which is 0.6999999999997009, and no match after the fourth
  price. But it marks the rising partial brick down after the fourth and after the fifth price
  (the comparison of C10), and after the fifth price, at the completion
  \<open>450359962736875 / 2 ^ 49\<close>, which is 0.7999999999996898 and above the threshold,
  \<open>detectSetup1Pattern\<close> returns \<open>NONE\<close>, where the claim, \<open>testSetup1PatternDetection\<close> and
  the comment of the detector (two consecutive down bricks followed by a partial up brick)
  have a match.
\<close>

theorem C3_setup1_does_not_fire:
  "map_option (\<lambda>c. (map isUp (bricks c), isUp (currentBrick c), completionPercent (currentBrick c)))
     (feed_fl round_double eurusd_double (as_doubles scenario_ticks))
     = Some ([False, False], False, 197032483697375 / 281474976710656)
   \<and> map_option pattern_type
       (detectSetup1_after_fl round_double PatternDetector_new eurusd_double
          (as_doubles scenario_ticks) 35) = Some NONE
   \<and> map_option (\<lambda>c. (map isUp (bricks c), isUp (currentBrick c), completionPercent (currentBrick c)))
       (feed_fl round_double eurusd_double (as_doubles (scenario_ticks @ [fifth_tick])))
       = Some ([False, False], False, 450359962736875 / 562949953421312)
   \<and> partialBrickThreshold PatternDetector_new \<le> 450359962736875 / 562949953421312
   \<and> map_option pattern_type
       (detectSetup1_after_fl round_double PatternDetector_new eurusd_double
          (as_doubles (scenario_ticks @ [fifth_tick])) 45) = Some NONE"
  by (simp add: detector_eval input_eval eurusd_double_def detectSetup1_after_fl_def chart_eval
        chart_fl_eval double_eval cong: let_weak_cong)

text \<open>
  In exact arithmetic the scenario has the same bricks, the same direction of the partial brick
  and the same results of the detector.
\<close>

lemma scenario_in_exact_arithmetic:
  "map_option (map isUp \<circ> bricks) (feed eurusd scenario_ticks) = Some [False, False]
   \<and> map_option (isUp \<circ> currentBrick) (feed eurusd scenario_ticks) = Some False
   \<and> map_option pattern_type (detectSetup1_after PatternDetector_new eurusd scenario_ticks 35)
       = Some NONE
   \<and> map_option (map isUp \<circ> bricks) (feed eurusd (scenario_ticks @ [fifth_tick]))
       = Some [False, False]
   \<and> map_option (isUp \<circ> currentBrick) (feed eurusd (scenario_ticks @ [fifth_tick]))
       = Some False
   \<and> map_option pattern_type
        (detectSetup1_after PatternDetector_new eurusd (scenario_ticks @ [fifth_tick]) 45)
       = Some NONE"
  by (simp add: detector_eval input_eval chart_eval)

section \<open>The risk manager\<close>

subsection \<open>Order validation\<close>

text \<open>
  Claim C6: \<open>validateOrder\<close> returns \<open>false\<close> if and only if the emergency stop is active, or
  \<open>dailyRiskUsed \<ge> equity * dailyRiskPercent\<close>, or \<open>currentDrawdown \<ge> maxDrawdownPercent\<close>;
  otherwise it returns \<open>true\<close>; in every case the state of the manager is unchanged.
\<close>

theorem C6_validateOrder_gate:
  "fst (validateOrder s order account positions) =
     (\<not> (emergencyStop s
         \<or> dailyRiskUsed s \<ge> equity account * dailyRiskPercent (params s)
         \<or> currentDrawdown s \<ge> maxDrawdownPercent (params s)))
   \<and> snd (validateOrder s order account positions) = s"
  by (auto simp add: validateOrder_def isWithinDailyRiskLimit_def isWithinDrawdownLimit_def
        Let_def)

subsection \<open>Emergency stop\<close>

lemma call_keeps_emergencyStop:
  assumes "call s op = Some s'" and "op \<noteq> DisableEmergencyStop" and "emergencyStop s"
  shows "emergencyStop s'"
  using assms
  by (cases op) (auto simp add: risk_eval split: if_splits option.splits)

lemma run_keeps_emergencyStop:
  assumes "run s ops = Some s'" and "DisableEmergencyStop \<notin> set ops" and "emergencyStop s"
  shows "emergencyStop s'"
  using assms
proof (induction ops arbitrary: s)
  case Nil
  then show ?case by simp
next
  case (Cons op ops)
  from Cons.prems(1) obtain s1 where s1: "call s op = Some s1" "run s1 ops = Some s'"
    by (auto split: option.splits)
  from Cons.prems have ne: "op \<noteq> DisableEmergencyStop" by auto
  have "emergencyStop s1" by (rule call_keeps_emergencyStop [OF s1(1) ne Cons.prems(3)])
  with Cons.IH [OF s1(2)] Cons.prems(2) show ?case by simp
qed

lemma validateOrder_false_while_stopped:
  assumes "run (enableEmergencyStop s) ops = Some s'"
    and "DisableEmergencyStop \<notin> set ops"
  shows "fst (validateOrder s' order account positions) = False"
proof -
  have "emergencyStop (enableEmergencyStop s)" by (simp add: enableEmergencyStop_def)
  with assms have "emergencyStop s'" by (rule run_keeps_emergencyStop)
  then show ?thesis by (simp add: validateOrder_def)
qed

text \<open>
  Claim C4: from any state, after \<open>enableEmergencyStop\<close> and for as long as
  \<open>disableEmergencyStop\<close> has not been called, \<open>validateOrder\<close> returns \<open>false\<close> for every
  input and \<open>getCurrentRiskStatus\<close> is \<open>LIMIT_REACHED\<close>.

  \<open>validateOrder\<close> does return \<open>false\<close> for as long (\<open>validateOrder_false_while_stopped\<close>). The
  status does not last: \<open>switchToPaperMode\<close> writes \<open>PAPER_MODE\<close> without testing the stop,
  which \<open>updateRiskStatus\<close> tests first. On a new manager, after \<open>enableEmergencyStop\<close> the
  status is \<open>LIMIT_REACHED\<close>; after two losing trades (the default limit) or one
  \<open>switchToPaperMode\<close> it is \<open>PAPER_MODE\<close> while the stop is active and orders are refused; a
  following \<open>updateRiskStatus\<close> puts \<open>LIMIT_REACHED\<close> back.
\<close>

theorem C4_status_overwritten_under_stop:
  "map_option getCurrentRiskStatus (run RiskManager_new [EnableEmergencyStop])
     = Some LIMIT_REACHED
   \<and> map_option getCurrentRiskStatus
       (run RiskManager_new
          [EnableEmergencyStop, RecordTrade testOrder False, RecordTrade testOrder False])
       = Some PAPER_MODE
   \<and> map_option isEmergencyStopActive
       (run RiskManager_new
          [EnableEmergencyStop, RecordTrade testOrder False, RecordTrade testOrder False])
       = Some True
   \<and> map_option (\<lambda>s. fst (validateOrder s testOrder (AccountInfo_default\<lparr>equity := 10000\<rparr>) []))
       (run RiskManager_new
          [EnableEmergencyStop, RecordTrade testOrder False, RecordTrade testOrder False])
       = Some False
   \<and> map_option getCurrentRiskStatus (run RiskManager_new [EnableEmergencyStop, SwitchToPaperMode])
       = Some PAPER_MODE
   \<and> map_option isEmergencyStopActive (run RiskManager_new [EnableEmergencyStop, SwitchToPaperMode])
       = Some True
   \<and> map_option getCurrentRiskStatus
       (run RiskManager_new
          [EnableEmergencyStop, SwitchToPaperMode,
           UpdateRiskStatus (AccountInfo_default\<lparr>equity := 10000\<rparr>) [] 5])
       = Some LIMIT_REACHED"
  by (simp add: risk_eval getCurrentRiskStatus_def isEmergencyStopActive_def validateOrder_def
        RiskManager_new_def RiskParameters_default_def AccountInfo_default_def)

subsection \<open>Consecutive losses\<close>

lemma recordTrade_loss:
  assumes "consecutiveLosses s < INT_MAX"
  shows "\<exists>s'. recordTrade s order False = Some s'
           \<and> consecutiveLosses s' = consecutiveLosses s + 1
           \<and> consecutiveWins s' = 0
           \<and> maxConsecutiveLosses s' = max (maxConsecutiveLosses s) (consecutiveLosses s + 1)
           \<and> params s' = params s
           \<and> (paperMode s' \<longleftrightarrow>
                paperMode s \<or> consecutiveLosses s + 1 \<ge> consecutiveLossLimit (params s))"
  using assms
  by (auto simp add: recordTrade_def int_incr_def shouldSwitchToPaperMode_def
        switchToPaperMode_def Let_def)

lemma run_losses:
  assumes "consecutiveLosses s + int (length os) \<le> INT_MAX"
  shows "\<exists>s'. run s (losses os) = Some s'
           \<and> consecutiveLosses s' = consecutiveLosses s + int (length os)
           \<and> params s' = params s
           \<and> (paperMode s \<longrightarrow> paperMode s')
           \<and> (os \<noteq> [] \<and> consecutiveLosses s + int (length os) \<ge> consecutiveLossLimit (params s)
                \<longrightarrow> paperMode s')"
  using assms
proof (induction os arbitrary: s)
  case Nil
  then show ?case by (simp add: losses_def)
next
  case (Cons order os)
  from Cons.prems have lt: "consecutiveLosses s < INT_MAX" by simp
  from recordTrade_loss [OF lt, of order] obtain s1 where
    s1: "recordTrade s order False = Some s1"
      "consecutiveLosses s1 = consecutiveLosses s + 1" "params s1 = params s"
      "paperMode s1 \<longleftrightarrow> paperMode s \<or> consecutiveLosses s + 1 \<ge> consecutiveLossLimit (params s)"
    by blast
  from Cons.prems s1(2) have "consecutiveLosses s1 + int (length os) \<le> INT_MAX" by simp
  from Cons.IH [OF this] obtain s' where
    s': "run s1 (losses os) = Some s'"
      "consecutiveLosses s' = consecutiveLosses s1 + int (length os)"
      "params s' = params s1" "paperMode s1 \<longrightarrow> paperMode s'"
      "os \<noteq> [] \<and> consecutiveLosses s1 + int (length os) \<ge> consecutiveLossLimit (params s1)
         \<longrightarrow> paperMode s'"
    by blast
  have r: "run s (losses (order # os)) = Some s'"
    using s1(1) s'(1) by (simp add: losses_def)
  have p: "paperMode s'"
    if "consecutiveLosses s + int (length (order # os)) \<ge> consecutiveLossLimit (params s)"
  proof (cases "os = []")
    case True
    with that s1(4) s'(4) show ?thesis by simp
  next
    case False
    with that s'(5) s1(2,3) show ?thesis by simp
  qed
  from r p s1 s' show ?case by auto
qed

text \<open>
  Claim C5: from a state with \<open>paperMode = false\<close> and \<open>consecutiveLosses = 0\<close>, exactly
  \<open>consecutiveLossLimit\<close> calls \<open>recordTrade(order, false)\<close> leave \<open>isPaperMode()\<close> true after
  the last call; each losing \<open>recordTrade\<close> increments \<open>consecutiveLosses\<close>, resets
  \<open>consecutiveWins\<close> to 0 and makes \<open>maxConsecutiveLosses\<close> the running maximum.

  There is a last call when the limit is at least 1; the limit is an \<open>int\<close>, at most
  \<open>INT_MAX\<close>. The second part is for a counter below \<open>INT_MAX\<close>, where the increment is
  defined. Both parts state that the calls return.
\<close>

theorem C5_consecutive_losses_switch_to_paper:
  "(\<not> paperMode s \<and> consecutiveLosses s = 0 \<and> 1 \<le> consecutiveLossLimit (params s)
      \<and> consecutiveLossLimit (params s) \<le> INT_MAX
      \<and> int (length os) = consecutiveLossLimit (params s)
     \<longrightarrow> (\<exists>s'. run s (losses os) = Some s' \<and> isPaperMode s'))
   \<and> (consecutiveLosses t < INT_MAX
     \<longrightarrow> (\<exists>t'. recordTrade t order False = Some t'
            \<and> getConsecutiveLosses t' = getConsecutiveLosses t + 1
            \<and> getConsecutiveWins t' = 0
            \<and> maxConsecutiveLosses t'
                = max (maxConsecutiveLosses t) (getConsecutiveLosses t + 1)))"
proof (intro conjI impI)
  assume a: "\<not> paperMode s \<and> consecutiveLosses s = 0 \<and> 1 \<le> consecutiveLossLimit (params s)
      \<and> consecutiveLossLimit (params s) \<le> INT_MAX
      \<and> int (length os) = consecutiveLossLimit (params s)"
  then have "consecutiveLosses s + int (length os) \<le> INT_MAX" by simp
  from run_losses [OF this] obtain s' where
    s': "run s (losses os) = Some s'"
      "os \<noteq> [] \<and> consecutiveLosses s + int (length os) \<ge> consecutiveLossLimit (params s)
         \<longrightarrow> paperMode s'"
    by blast
  from a have "os \<noteq> []" by auto
  with a s'(2) have "paperMode s'" by simp
  with s'(1) show "\<exists>s'. run s (losses os) = Some s' \<and> isPaperMode s'"
    by (simp add: isPaperMode_def)
next
  assume "consecutiveLosses t < INT_MAX"
  from recordTrade_loss [OF this, of order]
  show "\<exists>t'. recordTrade t order False = Some t'
            \<and> getConsecutiveLosses t' = getConsecutiveLosses t + 1
            \<and> getConsecutiveWins t' = 0
            \<and> maxConsecutiveLosses t'
                = max (maxConsecutiveLosses t) (getConsecutiveLosses t + 1)"
    by (auto simp add: getConsecutiveLosses_def getConsecutiveWins_def)
qed

text \<open>
  Claim C5 at a new manager, whose limit is 2.
\<close>

theorem C5_witness:
  "(\<exists>s'. run RiskManager_new (losses [testOrder, testOrder]) = Some s' \<and> isPaperMode s')
   \<and> \<not> isPaperMode RiskManager_new
   \<and> (\<exists>t'. recordTrade RiskManager_new testOrder False = Some t'
         \<and> getConsecutiveLosses t' = 1 \<and> getConsecutiveWins t' = 0
         \<and> maxConsecutiveLosses t' = 1)"
proof -
  have h: "\<not> paperMode RiskManager_new \<and> consecutiveLosses RiskManager_new = 0
      \<and> 1 \<le> consecutiveLossLimit (params RiskManager_new)
      \<and> consecutiveLossLimit (params RiskManager_new) \<le> INT_MAX
      \<and> int (length [testOrder, testOrder]) = consecutiveLossLimit (params RiskManager_new)"
    by (simp add: RiskManager_new_def RiskParameters_default_def INT_MAX_def)
  have g: "consecutiveLosses RiskManager_new < INT_MAX"
    by (simp add: RiskManager_new_def INT_MAX_def)
  have v: "getConsecutiveLosses RiskManager_new = 0" "maxConsecutiveLosses RiskManager_new = 0"
    by (simp_all add: RiskManager_new_def getConsecutiveLosses_def)
  from C5_consecutive_losses_switch_to_paper
    [of RiskManager_new "[testOrder, testOrder]" RiskManager_new testOrder] h g v
  show ?thesis
    by (simp add: isPaperMode_def RiskManager_new_def)
qed

subsection \<open>Position size\<close>

text \<open>
  Claim C7: \<open>calculatePositionSize\<close> returns 0 whenever \<open>\<bar>entry - stop\<bar> \<le> 0\<close>, and for a
  positive stop distance it returns \<open>riskAmount / (stopDistance * tickValue)\<close> clamped so that
  \<open>minLotSize \<le> result \<le> 0.1 * equity\<close>.

  The cap of a tenth of the equity is applied after the floor, so the result is below
  \<open>minLotSize\<close> when the cap is: with the default minimum 0.01, at an equity of 0.05 the
  result is 0.005, and at the equity 0 of \<open>AccountInfo()\<close> it is 0.
\<close>

theorem C7_counterexample:
  "\<not> minLotSize (params RiskManager_new)
       \<le> calculatePositionSize RiskManager_new ''EURUSD'' testSignal
            (AccountInfo_default\<lparr>equity := 5 / 100\<rparr>) (InstrumentSpec_default FOREX)
   \<and> \<not> minLotSize (params RiskManager_new)
       \<le> calculatePositionSize RiskManager_new ''EURUSD'' testSignal
            AccountInfo_default (InstrumentSpec_default FOREX)"
  by (simp add: calculatePositionSize_def RiskManager_new_def RiskParameters_default_def
        testSignal_def TradingSignal_default_def AccountInfo_default_def
        InstrumentSpec_default_def Let_def)

text \<open>
  Claim C7, amended: \<open>calculatePositionSize\<close> returns 0 whenever \<open>\<bar>entry - stop\<bar> \<le> 0\<close>; for
  a positive stop distance and a tick value other than 0 it returns
  \<open>min (max (riskAmount / (stopDistance * tickValue)) minLotSize) (0.1 * equity)\<close>, which is at
  most \<open>0.1 * equity\<close>, and at least \<open>minLotSize\<close> whenever \<open>minLotSize \<le> 0.1 * equity\<close>.
\<close>

theorem C7_position_size:
  "(\<bar>entryPrice signal - stopLoss signal\<bar> \<le> 0
      \<longrightarrow> calculatePositionSize s name signal account instrument = 0)
   \<and> (\<bar>entryPrice signal - stopLoss signal\<bar> > 0 \<and> instrument_tickValue instrument \<noteq> 0
      \<longrightarrow> calculatePositionSize s name signal account instrument =
            min (max (equity account * dailyRiskPercent (params s)
                        / (\<bar>entryPrice signal - stopLoss signal\<bar>
                             * instrument_tickValue instrument))
                     (minLotSize (params s)))
                (equity account * (1 / 10))
          \<and> calculatePositionSize s name signal account instrument \<le> equity account * (1 / 10)
          \<and> (minLotSize (params s) \<le> equity account * (1 / 10)
               \<longrightarrow> minLotSize (params s)
                     \<le> calculatePositionSize s name signal account instrument))"
proof (intro conjI impI)
  assume "\<bar>entryPrice signal - stopLoss signal\<bar> \<le> 0"
  then show "calculatePositionSize s name signal account instrument = 0"
    by (simp add: calculatePositionSize_def Let_def)
next
  assume a: "\<bar>entryPrice signal - stopLoss signal\<bar> > 0
             \<and> instrument_tickValue instrument \<noteq> 0"
  let ?raw = "equity account * dailyRiskPercent (params s)
                / (\<bar>entryPrice signal - stopLoss signal\<bar> * instrument_tickValue instrument)"
  let ?cap = "equity account * (1 / 10)"
  from a have "\<not> \<bar>entryPrice signal - stopLoss signal\<bar> \<le> 0" by linarith
  then have eq: "calculatePositionSize s name signal account instrument =
                   min (max ?raw (minLotSize (params s))) ?cap"
    by (simp only: calculatePositionSize_def Let_def if_False)
  show "calculatePositionSize s name signal account instrument =
          min (max ?raw (minLotSize (params s))) ?cap"
    by (rule eq)
  show "calculatePositionSize s name signal account instrument \<le> ?cap"
    unfolding eq by (rule min.cobounded2)
  show "minLotSize (params s) \<le> calculatePositionSize s name signal account instrument"
    if "minLotSize (params s) \<le> ?cap"
    unfolding eq using that by (intro min.boundedI max.cobounded2)
qed

text \<open>
  Claim C7, amended, at a signal with equal entry and stop, and at an equity of 10000 with
  the stop 0.001 below the entry, where the cap 1000 applies.
\<close>

theorem C7_witness:
  "calculatePositionSize RiskManager_new ''EURUSD'' (TradingSignal_default BUY)
      (AccountInfo_default\<lparr>equity := 10000\<rparr>) (InstrumentSpec_default FOREX) = 0
   \<and> calculatePositionSize RiskManager_new ''EURUSD'' testSignal
        (AccountInfo_default\<lparr>equity := 10000\<rparr>) (InstrumentSpec_default FOREX) = 1000
   \<and> minLotSize (params RiskManager_new) \<le> 1000"
proof -
  let ?acc = "AccountInfo_default\<lparr>equity := 10000\<rparr>"
  let ?ins = "InstrumentSpec_default FOREX"
  have z: "\<bar>entryPrice (TradingSignal_default BUY) - stopLoss (TradingSignal_default BUY)\<bar> \<le> 0"
    by (simp add: TradingSignal_default_def)
  have p: "\<bar>entryPrice testSignal - stopLoss testSignal\<bar> > 0
           \<and> instrument_tickValue ?ins \<noteq> 0"
    by (simp add: testSignal_def TradingSignal_default_def InstrumentSpec_default_def)
  have m: "minLotSize (params RiskManager_new) \<le> equity ?acc * (1 / 10)"
    by (simp add: RiskManager_new_def RiskParameters_default_def AccountInfo_default_def)
  from C7_position_size [of "TradingSignal_default BUY" RiskManager_new "''EURUSD''" ?acc ?ins] z
  have a: "calculatePositionSize RiskManager_new ''EURUSD'' (TradingSignal_default BUY)
             ?acc ?ins = 0"
    by blast
  from C7_position_size [of testSignal RiskManager_new "''EURUSD''" ?acc ?ins] p m
  have b: "calculatePositionSize RiskManager_new ''EURUSD'' testSignal ?acc ?ins =
            min (max (equity ?acc * dailyRiskPercent (params RiskManager_new)
                        / (\<bar>entryPrice testSignal - stopLoss testSignal\<bar>
                             * instrument_tickValue ?ins))
                     (minLotSize (params RiskManager_new)))
                (equity ?acc * (1 / 10))"
    by blast
  have c: "min (max (equity ?acc * dailyRiskPercent (params RiskManager_new)
                        / (\<bar>entryPrice testSignal - stopLoss testSignal\<bar>
                             * instrument_tickValue ?ins))
                     (minLotSize (params RiskManager_new)))
                (equity ?acc * (1 / 10)) = 1000"
    by (simp add: RiskManager_new_def RiskParameters_default_def testSignal_def
          TradingSignal_default_def AccountInfo_default_def InstrumentSpec_default_def)
  from a b c m show ?thesis
    by (simp add: AccountInfo_default_def)
qed

subsection \<open>Counters\<close>

lemma startNewCounter_number:
  assumes "\<not> counterMutex s"
    and "isComplete (currentCounter s) \<or> ordersCount (currentCounter s) = 0"
  shows "\<exists>s'. startNewCounter s now = Some s'
           \<and> counterNumber (currentCounter s') = int (length (completedCounters s)) + 1
           \<and> ordersCount (currentCounter s') = 0 \<and> \<not> isComplete (currentCounter s')"
  using assms
  by (auto simp add: startNewCounter_def lock_guard_def TradingCounter_default_def)

lemma addOrderToCounter_below_limit:
  assumes "\<not> counterMutex s" and "ordersCount (currentCounter s) < INT_MAX"
    and "ordersCount (currentCounter s) + 1 < ordersPerCounter (params s)"
  shows "\<exists>s'. addOrderToCounter s order now = Some s'
           \<and> ordersCount (currentCounter s') = ordersCount (currentCounter s) + 1
           \<and> isComplete (currentCounter s') = isComplete (currentCounter s)
           \<and> completedCounters s' = completedCounters s"
  using assms
  by (simp add: addOrderToCounter_def lock_guard_def int_incr_def Let_def)

lemma addOrderToCounter_completing_undefined:
  assumes "ordersCount (currentCounter s) + 1 \<ge> ordersPerCounter (params s)"
  shows "addOrderToCounter s order now = None"
  using assms by (simp add: risk_eval)

text \<open>
  Claim C8: from a fresh counter, after exactly \<open>ordersPerCounter\<close> calls of
  \<open>addOrderToCounter\<close> the counter is complete and archived in the completed list, and a
  following \<open>startNewCounter\<close> creates counter number \<open>N + 1\<close> when \<open>N\<close> counters have been
  completed.

  \<open>addOrderToCounter\<close> holds \<open>counterMutex\<close> when it calls \<open>completeCounter\<close>, which
  constructs a second \<open>std::lock_guard\<close> on the same mutex: the call that fills the counter
  has no defined result (\<open>addOrderToCounter_completing_undefined\<close>), while the calls before it
  only count (\<open>addOrderToCounter_below_limit\<close>) and \<open>startNewCounter\<close> numbers a new counter
  as the claim says (\<open>startNewCounter_number\<close>). On a new manager, whose \<open>ordersPerCounter\<close> is
  10, nine calls leave an open counter of nine orders and the tenth call does not return.
\<close>

theorem C8_completing_call_undefined:
  "map_option (ordersCount \<circ> currentCounter)
     (run RiskManager_new (StartNewCounter 0 # add_orders (replicate 9 testOrder) 1)) = Some 9
   \<and> map_option (isComplete \<circ> currentCounter)
     (run RiskManager_new (StartNewCounter 0 # add_orders (replicate 9 testOrder) 1)) = Some False
   \<and> run RiskManager_new (StartNewCounter 0 # add_orders (replicate 10 testOrder) 1) = None"
  by (simp add: risk_eval add_orders_def RiskManager_new_def RiskParameters_default_def
        TradingCounter_default_def eval_nat_numeral)

end
